theory Spec2Isabelle
  imports Complex_Main
begin

section \<open>Python values, exceptions and library contracts\<close>

text \<open>
  Exceptions are values of \<open>py_error\<close>; a computation that may raise returns
  \<open>py_error + 'a\<close> with \<open>Inl\<close> for the exception. Python floats are modelled as
  real numbers, Python ints as \<open>int\<close> or \<open>nat\<close>, \<open>datetime\<close> as the number of
  microseconds since the epoch (naive UTC, the resolution of \<open>datetime\<close>).
\<close>

datatype py_error =
    ValidationError
  | ValueError
  | TypeError
  | ZeroDivisionError
  | PostgresSyntaxError
  | InterfaceError
  | StorageError
  | DivisionByZeroError
  | NotFittedError
  | ShapeError
  | LoadError

text \<open>
  The untyped values that reach a pydantic \<open>bool\<close> field in this program: the
  expression \<open>a != b and x and y\<close> evaluates to \<open>False\<close>, to \<open>None\<close> or to a string.
\<close>

text \<open>An exception of the first computation ends the sequence.\<close>

definition bind_err :: "py_error + 'a \<Rightarrow> ('a \<Rightarrow> py_error + 'b) \<Rightarrow> py_error + 'b" where
  "bind_err m f = (case m of Inl e \<Rightarrow> Inl e | Inr x \<Rightarrow> f x)"

datatype pyval = PyNone | PyBool bool | PyStr string

fun truthy :: "pyval \<Rightarrow> bool" where
  "truthy PyNone = False"
| "truthy (PyBool b) = b"
| "truthy (PyStr s) = (s \<noteq> [])"

definition py_and :: "pyval \<Rightarrow> pyval \<Rightarrow> pyval" where
  "py_and a b = (if truthy a then b else a)"

fun opt_str :: "string option \<Rightarrow> pyval" where
  "opt_str None = PyNone"
| "opt_str (Some s) = PyStr s"

definition lower_char :: "char \<Rightarrow> char" where
  "lower_char c =
     (let n = (of_char c :: nat) in if 65 \<le> n \<and> n \<le> 90 then char_of (n + 32) else c)"

definition BOOL_TRUE :: "string list" where
  "BOOL_TRUE = [''1'', ''on'', ''t'', ''true'', ''y'', ''yes'']"

definition BOOL_FALSE :: "string list" where
  "BOOL_FALSE = [''0'', ''off'', ''f'', ''false'', ''n'', ''no'']"

text \<open>
  pydantic's validator of a required \<open>bool\<close> field: a bool passes, a string passes
  when its lower-case form is one of the twelve literals, \<open>None\<close> and every other string
  raise \<open>ValidationError\<close>.
\<close>

fun bool_validator :: "pyval \<Rightarrow> py_error + bool" where
  "bool_validator (PyBool b) = Inr b"
| "bool_validator PyNone = Inl ValidationError"
| "bool_validator (PyStr s) =
     (let v = map lower_char s in
      if v \<in> set BOOL_TRUE then Inr True
      else if v \<in> set BOOL_FALSE then Inr False
      else Inl ValidationError)"

text \<open>
  Numbers of the two Python types that meet in the amount features: \<open>float\<close> (the
  transaction's amount) and \<open>decimal.Decimal\<close> (the \<open>DECIMAL\<close> columns of a database
  row). Arithmetic between a \<open>float\<close> and a \<open>Decimal\<close> raises \<open>TypeError\<close>; comparison
  with a number and conversion to \<open>float\<close> are defined for both.
\<close>

datatype pynum = PyFloat real | PyDecimal real

fun num_val :: "pynum \<Rightarrow> real" where
  "num_val (PyFloat x) = x"
| "num_val (PyDecimal x) = x"

fun py_sub :: "pynum \<Rightarrow> pynum \<Rightarrow> py_error + pynum" where
  "py_sub (PyFloat a) (PyFloat b) = Inr (PyFloat (a - b))"
| "py_sub (PyDecimal a) (PyDecimal b) = Inr (PyDecimal (a - b))"
| "py_sub (PyFloat a) (PyDecimal b) = Inl TypeError"
| "py_sub (PyDecimal a) (PyFloat b) = Inl TypeError"

fun py_truediv :: "pynum \<Rightarrow> pynum \<Rightarrow> py_error + pynum" where
  "py_truediv (PyFloat a) (PyFloat b) =
     (if b = 0 then Inl ZeroDivisionError else Inr (PyFloat (a / b)))"
| "py_truediv (PyDecimal a) (PyDecimal b) =
     (if b = 0 then Inl ZeroDivisionError else Inr (PyDecimal (a / b)))"
| "py_truediv (PyFloat a) (PyDecimal b) = Inl TypeError"
| "py_truediv (PyDecimal a) (PyFloat b) = Inl TypeError"

text \<open>\<open>math.log\<close> raises \<open>ValueError\<close> outside its domain.\<close>

definition py_log :: "real \<Rightarrow> py_error + real" where
  "py_log x = (if x \<le> 0 then Inl ValueError else Inr (ln x))"

text \<open>
  \<open>np.mean\<close> and \<open>np.std\<close> (population standard deviation) of a non-empty list; on a
  list of \<open>Decimal\<close> values both return a \<open>Decimal\<close>.
\<close>

definition np_mean :: "real list \<Rightarrow> real" where
  "np_mean xs = sum_list xs / real (length xs)"

definition np_std :: "real list \<Rightarrow> real" where
  "np_std xs = sqrt (np_mean (map (\<lambda>x. (x - np_mean xs)\<^sup>2) xs))"

text \<open>
  What the process and its libraries supply: the builtin \<open>hash\<close> of strings, which
  CPython seeds per process, and \<open>geopy.distance.geodesic(p, q).kilometers\<close>, which may
  raise.
\<close>

record env =
  py_hash :: "string \<Rightarrow> int"
  geodesic_km :: "real \<times> real \<Rightarrow> real \<times> real \<Rightarrow> py_error + real"

section \<open>Data model (schemas.py)\<close>

datatype ChannelType = CARD_PRESENT | WEB | APP | PHONE

record Transaction =
  txn_id :: string
  ts :: int
  amount :: real
  merchant_cat :: string
  merchant_id :: string
  mcc :: string
  currency :: string
  country :: string
  city :: string
  lat :: "real option"
  lon :: "real option"
  channel :: ChannelType
  card_id :: string
  customer_id :: string
  device_id :: "string option"
  ip :: "string option"
  is_fraud :: "bool option"

text \<open>
  A row of \<open>get_customer_history\<close>, with the keys the feature engineer reads. The
  columns \<open>ts\<close>, \<open>amount\<close>, \<open>merchant_id\<close>, \<open>country\<close> and \<open>city\<close> are NOT NULL.
  The driver returns the \<open>DECIMAL\<close> columns \<open>amount\<close>, \<open>lat\<close> and \<open>lon\<close> as
  \<open>decimal.Decimal\<close>: \<open>h_amount\<close> is the value of such a \<open>Decimal\<close>, with the two
  decimal places of \<open>DECIMAL(10,2)\<close> (an amount below half a cent is stored as \<open>0.00\<close>).
  The coordinates are only tested for truth and passed to \<open>geodesic\<close>, which converts
  them to \<open>float\<close>.
\<close>

record hist =
  h_ts :: int
  h_amount :: real
  h_merchant_id :: string
  h_country :: string
  h_city :: string
  h_lat :: "real option"
  h_lon :: "real option"
  h_device_id :: "string option"
  h_ip :: "string option"

record MerchantStats =
  total_transactions :: nat
  avg_amount :: real
  fraud_count :: nat
  fraud_rate :: real

record FeatureVector =
  fv_amount :: real
  amount_z_score :: real
  amount_log :: real
  amount_rolling_mean_1h :: real
  amount_rolling_std_1h :: real
  amount_rolling_mean_24h :: real
  amount_rolling_std_24h :: real
  txn_count_5m :: nat
  txn_count_1h :: nat
  txn_count_24h :: nat
  distinct_merchants_5m :: nat
  distinct_merchants_1h :: nat
  distinct_merchants_24h :: nat
  distance_from_home :: real
  speed_from_last_txn :: "real option"
  country_change :: bool
  city_change :: bool
  hour_of_day :: int
  day_of_week :: int
  is_holiday :: bool
  is_weekend :: bool
  merchant_fraud_rate :: real
  mcc_fraud_rate :: real
  merchant_txn_count :: nat
  device_rarity_score :: real
  ip_rarity_score :: real
  device_change :: bool
  ip_change :: bool
  channel_card_present :: bool
  channel_web :: bool
  channel_app :: bool
  merchant_id_encoded :: real
  mcc_encoded :: real
  country_encoded :: real

section \<open>Feature engineering (pipeline/feature_engineering.py)\<close>

text \<open>\<open>timedelta\<close> values in microseconds.\<close>

definition minutes :: "int \<Rightarrow> int" where
  "minutes n = n * 60000000"

definition hours :: "int \<Rightarrow> int" where
  "hours n = n * 3600000000"

text \<open>\<open>ts.hour\<close> and \<open>ts.weekday()\<close> (Monday is 0; day 0 of the epoch was a Thursday).\<close>

definition dt_hour :: "int \<Rightarrow> int" where
  "dt_hour t = (t div 3600000000) mod 24"

definition dt_weekday :: "int \<Rightarrow> int" where
  "dt_weekday t = (t div 86400000000 + 3) mod 7"

record amount_features =
  af_z_score :: real
  af_log_amount :: real
  af_rolling_mean_1h :: real
  af_rolling_std_1h :: real
  af_rolling_mean_24h :: real
  af_rolling_std_24h :: real

text \<open>
  \<open>_calculate_amount_features\<close>. The amounts of the history are \<open>Decimal\<close> values, so
  are their mean and standard deviation; \<open>transaction.amount - mean_amount\<close> subtracts a
  \<open>Decimal\<close> from a \<open>float\<close>. The conditional expression evaluates the subtraction only
  when \<open>std_amount > 0\<close>. The fields of the returned dictionary are converted to \<open>float\<close>
  when the \<open>FeatureVector\<close> is built.
\<close>

definition calculate_amount_features :: "Transaction \<Rightarrow> hist list \<Rightarrow> py_error + amount_features" where
  "calculate_amount_features T H =
     (let amounts = map h_amount (filter (\<lambda>txn. h_amount txn > 0) H) in
      if amounts = [] then
        bind_err (py_log (amount T + 1)) (\<lambda>log_amount.
          Inr \<lparr>af_z_score = 0, af_log_amount = log_amount,
               af_rolling_mean_1h = 0, af_rolling_std_1h = 1,
               af_rolling_mean_24h = 0, af_rolling_std_24h = 1\<rparr>)
      else
        let mean_amount = PyDecimal (np_mean amounts);
            std_amount = (if length amounts > 1 then PyDecimal (np_std amounts) else PyFloat 1)
        in
        bind_err
          (if num_val std_amount > 0
           then bind_err (py_sub (PyFloat (amount T)) mean_amount) (\<lambda>d. py_truediv d std_amount)
           else Inr (PyFloat 0)) (\<lambda>z_score.
        let one_hour_ago = ts T - hours 1;
            recent_amounts =
              map h_amount
                (filter (\<lambda>txn. h_ts txn \<ge> one_hour_ago \<and> h_amount txn > 0) H)
        in
        bind_err (py_log (amount T + 1)) (\<lambda>log_amount.
          Inr \<lparr>af_z_score = num_val z_score, af_log_amount = log_amount,
               af_rolling_mean_1h = (if recent_amounts \<noteq> [] then np_mean recent_amounts else 0),
               af_rolling_std_1h = (if length recent_amounts > 1 then np_std recent_amounts else 1),
               af_rolling_mean_24h = num_val mean_amount,
               af_rolling_std_24h = num_val std_amount\<rparr>)))"

record velocity_features =
  vf_txn_count_5m :: nat
  vf_txn_count_1h :: nat
  vf_txn_count_24h :: nat
  vf_distinct_merchants_5m :: nat
  vf_distinct_merchants_1h :: nat
  vf_distinct_merchants_24h :: nat

text \<open>\<open>len(set(...))\<close> of a list is the length of the list without duplicates.\<close>

definition len_set :: "'a list \<Rightarrow> nat" where
  "len_set xs = length (remdups xs)"

definition calculate_velocity_features :: "Transaction \<Rightarrow> hist list \<Rightarrow> velocity_features" where
  "calculate_velocity_features T H =
     (let five_min_ago = ts T - minutes 5;
          one_hour_ago = ts T - hours 1;
          one_day_ago = ts T - hours 24;
          recent_5m = filter (\<lambda>txn. h_ts txn \<ge> five_min_ago) H;
          recent_1h = filter (\<lambda>txn. h_ts txn \<ge> one_hour_ago) H;
          recent_24h = filter (\<lambda>txn. h_ts txn \<ge> one_day_ago) H
      in \<lparr>vf_txn_count_5m = length recent_5m,
          vf_txn_count_1h = length recent_1h,
          vf_txn_count_24h = length recent_24h,
          vf_distinct_merchants_5m = len_set (map h_merchant_id recent_5m),
          vf_distinct_merchants_1h = len_set (map h_merchant_id recent_1h),
          vf_distinct_merchants_24h = len_set (map h_merchant_id recent_24h)\<rparr>)"

record geo_features =
  gf_distance_from_home :: real
  gf_speed_from_last_txn :: "real option"
  gf_country_change :: bool
  gf_city_change :: bool

text \<open>
  The guard \<open>transaction.lat and transaction.lon and last_txn.get('lat') and
  last_txn.get('lon')\<close> tests truthiness: a coordinate that is \<open>None\<close> or \<open>0.0\<close> fails
  it. The bare \<open>except: pass\<close> leaves the speed at \<open>None\<close> when \<open>geodesic\<close> raises.
\<close>

fun float_truthy :: "real option \<Rightarrow> bool" where
  "float_truthy None = False"
| "float_truthy (Some x) = (x \<noteq> 0)"

definition total_hours :: "int \<Rightarrow> real" where
  "total_hours d = real_of_int d / 1000000 / 3600"

definition speed_of :: "env \<Rightarrow> Transaction \<Rightarrow> hist \<Rightarrow> real option" where
  "speed_of E T last_txn =
     (case (h_lat last_txn, h_lon last_txn, lat T, lon T) of
        (Some hlat, Some hlon, Some tlat, Some tlon) \<Rightarrow>
          (case geodesic_km E (hlat, hlon) (tlat, tlon) of
             Inl e \<Rightarrow> None
           | Inr distance \<Rightarrow>
               let time_diff = total_hours (ts T - h_ts last_txn)
               in Some (if time_diff > 0 then distance / time_diff else 0))
      | _ \<Rightarrow> None)"

definition calculate_geo_features :: "env \<Rightarrow> Transaction \<Rightarrow> hist list \<Rightarrow> geo_features" where
  "calculate_geo_features E T H =
     (case H of
        [] \<Rightarrow> \<lparr>gf_distance_from_home = 0, gf_speed_from_last_txn = None,
               gf_country_change = False, gf_city_change = False\<rparr>
      | last_txn # rest \<Rightarrow>
          \<lparr>gf_distance_from_home = 0,
           gf_speed_from_last_txn =
             (if float_truthy (lat T) \<and> float_truthy (lon T) \<and>
                 float_truthy (h_lat last_txn) \<and> float_truthy (h_lon last_txn)
              then speed_of E T last_txn else None),
           gf_country_change = (h_country last_txn \<noteq> country T),
           gf_city_change = (h_city last_txn \<noteq> city T)\<rparr>)"

record time_features =
  tf_hour_of_day :: int
  tf_day_of_week :: int
  tf_is_holiday :: bool
  tf_is_weekend :: bool

definition calculate_time_features :: "Transaction \<Rightarrow> time_features" where
  "calculate_time_features T =
     \<lparr>tf_hour_of_day = dt_hour (ts T), tf_day_of_week = dt_weekday (ts T),
      tf_is_holiday = False, tf_is_weekend = (dt_weekday (ts T) \<ge> 5)\<rparr>"

record merchant_features =
  mf_fraud_rate :: real
  mf_mcc_fraud_rate :: real
  mf_txn_count :: nat

definition calculate_merchant_features :: "Transaction \<Rightarrow> MerchantStats \<Rightarrow> merchant_features" where
  "calculate_merchant_features T merchant_stats =
     \<lparr>mf_fraud_rate = fraud_rate merchant_stats, mf_mcc_fraud_rate = 1 / 100,
      mf_txn_count = total_transactions merchant_stats\<rparr>"

text \<open>
  \<open>device_change\<close> and \<open>ip_change\<close> are the values of the Python expressions
  \<open>last != cur and cur and last\<close>, which are not booleans in general.
\<close>

record device_features =
  df_device_rarity :: real
  df_ip_rarity :: real
  df_device_change :: pyval
  df_ip_change :: pyval

definition change_expr :: "string option \<Rightarrow> string option \<Rightarrow> pyval" where
  "change_expr prev cur = py_and (py_and (PyBool (prev \<noteq> cur)) (opt_str cur)) (opt_str prev)"

definition calculate_device_features :: "Transaction \<Rightarrow> hist list \<Rightarrow> device_features" where
  "calculate_device_features T H =
     (case H of
        [] \<Rightarrow> \<lparr>df_device_rarity = 1, df_ip_rarity = 1,
               df_device_change = PyBool False, df_ip_change = PyBool False\<rparr>
      | last_txn # rest \<Rightarrow>
          \<lparr>df_device_rarity = 1, df_ip_rarity = 1,
           df_device_change = change_expr (h_device_id last_txn) (device_id T),
           df_ip_change = change_expr (h_ip last_txn) (ip T)\<rparr>)"

record channel_features =
  cf_card_present :: bool
  cf_web :: bool
  cf_app :: bool

definition calculate_channel_features :: "Transaction \<Rightarrow> channel_features" where
  "calculate_channel_features T =
     \<lparr>cf_card_present = (channel T = CARD_PRESENT), cf_web = (channel T = WEB),
      cf_app = (channel T = APP)\<rparr>"

definition encode :: "env \<Rightarrow> string \<Rightarrow> real" where
  "encode E s = real_of_int (py_hash E s mod 1000) / 1000"

text \<open>
  The body of the \<open>try\<close> block of \<open>engineer_features\<close>. Its two awaited reads,
  \<open>get_customer_history\<close> and \<open>_get_merchant_stats\<close>, are given by their outcomes.
  Constructing the \<open>FeatureVector\<close> validates the two untyped change flags.
\<close>

definition engineer_features_try ::
  "env \<Rightarrow> Transaction \<Rightarrow> py_error + hist list \<Rightarrow> py_error + MerchantStats \<Rightarrow> py_error + FeatureVector" where
  "engineer_features_try E T history stats =
     bind_err history (\<lambda>customer_history.
     bind_err stats (\<lambda>merchant_stats.
     bind_err (calculate_amount_features T customer_history) (\<lambda>af.
      let vf = calculate_velocity_features T customer_history;
          gf = calculate_geo_features E T customer_history;
          tf = calculate_time_features T;
          mf = calculate_merchant_features T merchant_stats;
          df = calculate_device_features T customer_history;
          cf = calculate_channel_features T
      in
      bind_err (bool_validator (df_device_change df)) (\<lambda>dc.
      bind_err (bool_validator (df_ip_change df)) (\<lambda>ic.
      Inr \<lparr>fv_amount = amount T,
           amount_z_score = af_z_score af,
           amount_log = af_log_amount af,
           amount_rolling_mean_1h = af_rolling_mean_1h af,
           amount_rolling_std_1h = af_rolling_std_1h af,
           amount_rolling_mean_24h = af_rolling_mean_24h af,
           amount_rolling_std_24h = af_rolling_std_24h af,
           txn_count_5m = vf_txn_count_5m vf,
           txn_count_1h = vf_txn_count_1h vf,
           txn_count_24h = vf_txn_count_24h vf,
           distinct_merchants_5m = vf_distinct_merchants_5m vf,
           distinct_merchants_1h = vf_distinct_merchants_1h vf,
           distinct_merchants_24h = vf_distinct_merchants_24h vf,
           distance_from_home = gf_distance_from_home gf,
           speed_from_last_txn = gf_speed_from_last_txn gf,
           country_change = gf_country_change gf,
           city_change = gf_city_change gf,
           hour_of_day = tf_hour_of_day tf,
           day_of_week = tf_day_of_week tf,
           is_holiday = tf_is_holiday tf,
           is_weekend = tf_is_weekend tf,
           merchant_fraud_rate = mf_fraud_rate mf,
           mcc_fraud_rate = mf_mcc_fraud_rate mf,
           merchant_txn_count = mf_txn_count mf,
           device_rarity_score = df_device_rarity df,
           ip_rarity_score = df_ip_rarity df,
           device_change = dc,
           ip_change = ic,
           channel_card_present = cf_card_present cf,
           channel_web = cf_web cf,
           channel_app = cf_app cf,
           merchant_id_encoded = encode E (merchant_id T),
           mcc_encoded = encode E (mcc T),
           country_encoded = encode E (country T)\<rparr>)))))"

definition get_default_features :: "Transaction \<Rightarrow> py_error + FeatureVector" where
  "get_default_features T =
     (case py_log (amount T + 1) of Inl e \<Rightarrow> Inl e | Inr log_amount \<Rightarrow>
      Inr \<lparr>fv_amount = amount T,
           amount_z_score = 0,
           amount_log = log_amount,
           amount_rolling_mean_1h = 0,
           amount_rolling_std_1h = 1,
           amount_rolling_mean_24h = 0,
           amount_rolling_std_24h = 1,
           txn_count_5m = 0,
           txn_count_1h = 0,
           txn_count_24h = 0,
           distinct_merchants_5m = 0,
           distinct_merchants_1h = 0,
           distinct_merchants_24h = 0,
           distance_from_home = 0,
           speed_from_last_txn = None,
           country_change = False,
           city_change = False,
           hour_of_day = dt_hour (ts T),
           day_of_week = dt_weekday (ts T),
           is_holiday = False,
           is_weekend = (dt_weekday (ts T) \<ge> 5),
           merchant_fraud_rate = 0,
           mcc_fraud_rate = 1 / 100,
           merchant_txn_count = 0,
           device_rarity_score = 1,
           ip_rarity_score = 1,
           device_change = False,
           ip_change = False,
           channel_card_present = (channel T = CARD_PRESENT),
           channel_web = (channel T = WEB),
           channel_app = (channel T = APP),
           merchant_id_encoded = 1 / 2,
           mcc_encoded = 1 / 2,
           country_encoded = 1 / 2\<rparr>)"

text \<open>\<open>engineer_features\<close>: any exception of the \<open>try\<close> block selects the default vector.\<close>

definition engineer_features ::
  "env \<Rightarrow> Transaction \<Rightarrow> py_error + hist list \<Rightarrow> py_error + MerchantStats \<Rightarrow> py_error + FeatureVector" where
  "engineer_features E T history stats =
     (case engineer_features_try E T history stats of
        Inr fv \<Rightarrow> Inr fv
      | Inl e \<Rightarrow> get_default_features T)"

section \<open>Scoring (pipeline/model_infer.py)\<close>

text \<open>
  The isolation forest is an opaque trained artifact: \<open>score_samples\<close> on one row
  returns a number or raises (an unfitted forest, a row of the wrong width).
\<close>

type_synonym IsolationForest = "real list \<Rightarrow> py_error + real"

text \<open>
  \<open>StandardScaler\<close>: \<open>transform\<close> raises on an unfitted scaler and on a row whose
  width differs from the fitted one, and maps \<open>x\<close> to \<open>(x - mean) / scale\<close> elementwise.
\<close>

datatype StandardScaler = Unfitted | Fitted "real list" "real list"

fun scaler_transform :: "StandardScaler \<Rightarrow> real list \<Rightarrow> py_error + real list" where
  "scaler_transform Unfitted xs = Inl NotFittedError"
| "scaler_transform (Fitted mu sigma) xs =
     (if length xs = length mu \<and> length xs = length sigma
      then Inr (map (\<lambda>(x, m, s). (x - m) / s) (zip xs (zip mu sigma)))
      else Inl ShapeError)"

text \<open>
  \<open>class Autoencoder\<close>: encoder \<open>Linear, ReLU, Linear, ReLU\<close>, decoder
  \<open>Linear, ReLU, Linear\<close>. A linear layer raises when the row does not fit its weights.
\<close>

record Linear =
  weight :: "real list list"
  bias :: "real list"

definition linear_forward :: "Linear \<Rightarrow> real list \<Rightarrow> py_error + real list" where
  "linear_forward L x =
     (if list_all (\<lambda>row. length row = length x) (weight L) \<and> length (bias L) = length (weight L)
      then Inr (map (\<lambda>(row, b). sum_list (map (\<lambda>(w, v). w * v) (zip row x)) + b)
                    (zip (weight L) (bias L)))
      else Inl ShapeError)"

definition ReLU :: "real list \<Rightarrow> real list" where
  "ReLU x = map (max 0) x"

record Autoencoder =
  encoder_0 :: Linear
  encoder_2 :: Linear
  decoder_0 :: Linear
  decoder_2 :: Linear

definition encoder :: "Autoencoder \<Rightarrow> real list \<Rightarrow> py_error + real list" where
  "encoder A x =
     bind_err (linear_forward (encoder_0 A) x) (\<lambda>h.
     bind_err (linear_forward (encoder_2 A) (ReLU h)) (\<lambda>z. Inr (ReLU z)))"

definition decoder :: "Autoencoder \<Rightarrow> real list \<Rightarrow> py_error + real list" where
  "decoder A z =
     bind_err (linear_forward (decoder_0 A) z) (\<lambda>h. linear_forward (decoder_2 A) (ReLU h))"

definition forward :: "Autoencoder \<Rightarrow> real list \<Rightarrow> py_error + real list" where
  "forward A x = bind_err (encoder A x) (decoder A)"

text \<open>
  \<open>nn.MSELoss()\<close> of two rows of the same width: the mean of the squared differences.
  Rows of different widths are taken to raise.
\<close>

definition MSELoss :: "real list \<Rightarrow> real list \<Rightarrow> py_error + real" where
  "MSELoss r x =
     (if length r = length x
      then Inr (sum_list (map (\<lambda>(a, b). (a - b)\<^sup>2) (zip r x)) / real (length x))
      else Inl ShapeError)"

record FraudDetector =
  isolation_forest :: "IsolationForest option"
  autoencoder :: "Autoencoder option"
  scaler :: "StandardScaler option"
  self_threshold :: real
  model_loaded :: bool

definition FraudDetector_init :: FraudDetector where
  "FraudDetector_init =
     \<lparr>isolation_forest = None, autoencoder = None, scaler = None,
      self_threshold = 95 / 100, model_loaded = False\<rparr>"

text \<open>
  \<open>load_models\<close> reads or trains the three artifacts; what the disk and the training
  give is its outcome. When its \<open>try\<close> block completes, \<open>model_loaded\<close> is set; when the
  block raises, the handler retrains the artifacts and \<open>model_loaded\<close> stays as it was;
  an exception of the handler propagates. No outcome writes \<open>self.threshold\<close>.
\<close>

datatype load_outcome =
    Loaded IsolationForest Autoencoder StandardScaler
  | Retrained IsolationForest Autoencoder StandardScaler
  | LoadRaised py_error

fun load_models :: "load_outcome \<Rightarrow> FraudDetector \<Rightarrow> py_error + FraudDetector" where
  "load_models (Loaded f a s) d =
     Inr (d\<lparr>isolation_forest := Some f, autoencoder := Some a, scaler := Some s,
            model_loaded := True\<rparr>)"
| "load_models (Retrained f a s) d =
     Inr (d\<lparr>isolation_forest := Some f, autoencoder := Some a, scaler := Some s\<rparr>)"
| "load_models (LoadRaised e) d = Inl e"

definition b2r :: "bool \<Rightarrow> real" where
  "b2r b = (if b then 1 else 0)"

definition features_to_array :: "FeatureVector \<Rightarrow> real list" where
  "features_to_array features =
     [fv_amount features, amount_z_score features, amount_log features,
      amount_rolling_mean_1h features, amount_rolling_std_1h features,
      amount_rolling_mean_24h features, amount_rolling_std_24h features,
      real (txn_count_5m features), real (txn_count_1h features), real (txn_count_24h features),
      real (distinct_merchants_5m features), real (distinct_merchants_1h features),
      real (distinct_merchants_24h features),
      distance_from_home features,
      (case speed_from_last_txn features of None \<Rightarrow> 0 | Some v \<Rightarrow> if v \<noteq> 0 then v else 0),
      b2r (country_change features), b2r (city_change features),
      real_of_int (hour_of_day features), real_of_int (day_of_week features),
      b2r (is_holiday features), b2r (is_weekend features),
      merchant_fraud_rate features, mcc_fraud_rate features,
      real (merchant_txn_count features),
      device_rarity_score features, ip_rarity_score features,
      b2r (device_change features), b2r (ip_change features),
      b2r (channel_card_present features), b2r (channel_web features),
      b2r (channel_app features), merchant_id_encoded features,
      mcc_encoded features, country_encoded features]"

definition isolation_forest_score :: "FraudDetector \<Rightarrow> real list \<Rightarrow> real" where
  "isolation_forest_score d feature_array =
     (case isolation_forest d of
        None \<Rightarrow> 1 / 2
      | Some score_samples \<Rightarrow>
          (case score_samples feature_array of
             Inl e \<Rightarrow> 1 / 2
           | Inr s \<Rightarrow> max 0 (min 1 (- s))))"

definition autoencoder_score_try :: "Autoencoder \<Rightarrow> StandardScaler \<Rightarrow> real list \<Rightarrow> py_error + real" where
  "autoencoder_score_try A S feature_array =
     bind_err (scaler_transform S feature_array) (\<lambda>X.
     bind_err (forward A X) (\<lambda>reconstructed.
     bind_err (MSELoss reconstructed X) (\<lambda>mse. Inr (min 1 (mse * 10)))))"

definition autoencoder_score :: "FraudDetector \<Rightarrow> real list \<Rightarrow> real" where
  "autoencoder_score d feature_array =
     (case (autoencoder d, scaler d) of
        (Some A, Some S) \<Rightarrow>
          (case autoencoder_score_try A S feature_array of
             Inl e \<Rightarrow> 1 / 2
           | Inr normalized_score \<Rightarrow> normalized_score)
      | _ \<Rightarrow> 1 / 2)"

record risk_factors =
  high_amount :: bool
  high_velocity :: bool
  geographic_anomaly :: bool
  suspicious_merchant :: bool
  device_anomaly :: bool

datatype explanation =
    Explained
      (ensemble_score: real) (isolation_forest_score_of: real) (autoencoder_score_of: real)
      (top_contributing_features: "(string \<times> real) list")
      (counterfactuals: "string list") (risk_factors_of: risk_factors)
  | ErrorExplanation string

text \<open>\<open>sorted(items, key=value, reverse=True)\<close> is stable: equal values keep their order.\<close>

definition sorted_desc :: "(string \<times> real) list \<Rightarrow> (string \<times> real) list" where
  "sorted_desc items = sort_key (\<lambda>p. - snd p) items"

definition generate_explanation :: "FeatureVector \<Rightarrow> real \<Rightarrow> real \<Rightarrow> real \<Rightarrow> explanation" where
  "generate_explanation features ensemble if_score ae_score =
     (let feature_contributions =
            [(''amount_z_score'', \<bar>amount_z_score features\<bar>),
             (''txn_count_1h'', real (txn_count_1h features) / 10),
             (''distance_from_home'', distance_from_home features / 100),
             (''merchant_fraud_rate'', merchant_fraud_rate features),
             (''device_rarity_score'', device_rarity_score features),
             (''country_change'', if country_change features then 1 else 0)];
          top_features = take 3 (sorted_desc feature_contributions);
          counterfactuals =
            (if amount_z_score features > 2 then [''Reduce transaction amount''] else []) @
            (if txn_count_1h features > 5 then [''Reduce transaction frequency''] else []) @
            (if country_change features then [''Use card in home country''] else [])
      in Explained ensemble if_score ae_score top_features counterfactuals
           \<lparr>high_amount = (amount_z_score features > 2),
            high_velocity = (txn_count_1h features > 5),
            geographic_anomaly = country_change features,
            suspicious_merchant = (merchant_fraud_rate features > 1 / 10),
            device_anomaly = (device_rarity_score features > 8 / 10)\<rparr>)"

record ScoreResult =
  score :: real
  threshold :: real
  is_alert :: bool
  model_used :: string
  explanation_of :: explanation
  confidence :: real

text \<open>
  Constructing a \<open>ScoreResult\<close> validates \<open>Field(..., ge=0, le=1)\<close> on \<open>score\<close>,
  \<open>threshold\<close> and \<open>confidence\<close>.
\<close>

definition ScoreResult_new ::
  "real \<Rightarrow> real \<Rightarrow> bool \<Rightarrow> string \<Rightarrow> explanation \<Rightarrow> real \<Rightarrow> py_error + ScoreResult" where
  "ScoreResult_new s t a m e c =
     (if 0 \<le> s \<and> s \<le> 1 \<and> 0 \<le> t \<and> t \<le> 1 \<and> 0 \<le> c \<and> c \<le> 1
      then Inr \<lparr>score = s, threshold = t, is_alert = a, model_used = m,
                explanation_of = e, confidence = c\<rparr>
      else Inl ValidationError)"

text \<open>The body of the \<open>try\<close> block of \<open>FraudDetector.score\<close>.\<close>

definition score_try :: "load_outcome \<Rightarrow> FraudDetector \<Rightarrow> FeatureVector \<Rightarrow> py_error + ScoreResult" where
  "score_try L d features =
     bind_err (if \<not> model_loaded d then load_models L d else Inr d) (\<lambda>self.
       let feature_array = features_to_array features;
           if_score = isolation_forest_score self feature_array;
           ae_score = autoencoder_score self feature_array;
           ensemble = 4 / 10 * if_score + 6 / 10 * ae_score;
           thr = self_threshold self;
           alert = (ensemble > thr);
           expl = generate_explanation features ensemble if_score ae_score
       in ScoreResult_new ensemble thr alert ''ensemble'' expl (min (ensemble * (12 / 10)) 1))"

text \<open>\<open>FraudDetector.score\<close>: the handler builds the default result.\<close>

definition FraudDetector_score ::
  "load_outcome \<Rightarrow> FraudDetector \<Rightarrow> FeatureVector \<Rightarrow> py_error + ScoreResult" where
  "FraudDetector_score L d features =
     (case score_try L d features of
        Inr r \<Rightarrow> Inr r
      | Inl e \<Rightarrow>
          ScoreResult_new (1 / 2) (self_threshold d) False ''fallback''
            (ErrorExplanation ''Model scoring failed'') 0)"

text \<open>The detector after the call: only a completed \<open>load_models\<close> changes it.\<close>

definition FraudDetector_after :: "load_outcome \<Rightarrow> FraudDetector \<Rightarrow> FraudDetector" where
  "FraudDetector_after L d =
     (if model_loaded d then d
      else (case load_models L d of Inl e \<Rightarrow> d | Inr self \<Rightarrow> self))"

section \<open>Storage (utils/db.py)\<close>

text \<open>
  The three relations have \<open>txn_id\<close> as primary key; a relation is the list of its rows
  in insertion order, each row with its \<open>created_at\<close> stamp. \<open>pool_open\<close> says that
  \<open>connect\<close> has created the pool; without it every operation raises.
\<close>

type_synonym 'a relation = "(string \<times> 'a \<times> int) list"

record DatabaseManager =
  pool_open :: bool
  transactions :: "Transaction relation"
  features_rel :: "FeatureVector relation"
  scores :: "ScoreResult relation"

text \<open>\<open>INSERT ... ON CONFLICT (txn_id) DO NOTHING\<close>.\<close>

definition insert_do_nothing :: "string \<Rightarrow> 'a \<Rightarrow> int \<Rightarrow> 'a relation \<Rightarrow> 'a relation" where
  "insert_do_nothing k row now rel =
     (if k \<in> set (map fst rel) then rel else rel @ [(k, row, now)])"

text \<open>
  \<open>conn.execute\<close> of such a statement, given the number of columns it names, the number
  of placeholders in its \<open>VALUES\<close> list and the number of arguments passed. PostgreSQL
  rejects a statement whose column list and value list differ in length, and the driver
  rejects a call whose arguments do not match the placeholders. Each statement is committed
  on its own: the function opens no transaction.
\<close>

definition execute_insert ::
  "nat \<Rightarrow> nat \<Rightarrow> nat \<Rightarrow> string \<Rightarrow> 'a \<Rightarrow> int \<Rightarrow> 'a relation \<Rightarrow> py_error + 'a relation" where
  "execute_insert columns placeholders arguments k row now rel =
     (if columns \<noteq> placeholders then Inl PostgresSyntaxError
      else if arguments \<noteq> placeholders then Inl InterfaceError
      else Inr (insert_do_nothing k row now rel))"

text \<open>
  \<open>store_transaction\<close> returns how the call ended and the database it leaves. The
  \<open>transactions\<close> statement names 17 columns and has 17 placeholders and arguments; the
  \<open>features\<close> statement names 35 columns (\<open>txn_id\<close> and the 34 features) and has the 34
  placeholders \<open>$1 .. $34\<close>, with 35 arguments; the \<open>scores\<close> statement has 7 of each.
\<close>

definition store_transaction ::
  "int \<Rightarrow> DatabaseManager \<Rightarrow> Transaction \<Rightarrow> FeatureVector \<Rightarrow> ScoreResult
     \<Rightarrow> (py_error + unit) \<times> DatabaseManager" where
  "store_transaction now db T fv score_result =
     (if \<not> pool_open db then (Inl StorageError, db)
      else
        case execute_insert 17 17 17 (txn_id T) T now (transactions db) of
          Inl e \<Rightarrow> (Inl e, db)
        | Inr rel1 \<Rightarrow>
            (let db1 = db\<lparr>transactions := rel1\<rparr> in
             case execute_insert 35 34 35 (txn_id T) fv now (features_rel db1) of
               Inl e \<Rightarrow> (Inl e, db1)
             | Inr rel2 \<Rightarrow>
                 (let db2 = db1\<lparr>features_rel := rel2\<rparr> in
                  case execute_insert 7 7 7 (txn_id T) score_result now (scores db2) of
                    Inl e \<Rightarrow> (Inl e, db2)
                  | Inr rel3 \<Rightarrow> (Inr (), db2\<lparr>scores := rel3\<rparr>))))"

text \<open>The database after a call of \<open>store_transaction\<close>, however the call ended.\<close>

definition stored ::
  "int \<Rightarrow> DatabaseManager \<Rightarrow> Transaction \<Rightarrow> FeatureVector \<Rightarrow> ScoreResult \<Rightarrow> DatabaseManager" where
  "stored now db T fv score_result = snd (store_transaction now db T fv score_result)"

text \<open>
  \<open>get_merchant_stats\<close>: one aggregate query over the rows of the merchant. In
  PostgreSQL \<open>COUNT(...)::float / COUNT(*)\<close> raises \<open>division by zero\<close> when the count
  is zero, so the statement raises before any row is returned; \<open>AVG\<close> of no rows is NULL.
\<close>

definition get_merchant_stats :: "DatabaseManager \<Rightarrow> string \<Rightarrow> py_error + MerchantStats" where
  "get_merchant_stats db m =
     (if \<not> pool_open db then Inl StorageError
      else
        let rows = filter (\<lambda>(k, t, c). merchant_id t = m) (transactions db);
            total = length rows;
            frauds = length (filter (\<lambda>(k, t, c). is_fraud t = Some True) rows)
        in if total = 0 then Inl DivisionByZeroError
           else
             let avg = sum_list (map (\<lambda>(k, t, c). amount t) rows) / real total;
                 rate = real frauds / real total
             in Inr \<lparr>total_transactions = total,
                     avg_amount = (if avg \<noteq> 0 then avg else 0),
                     fraud_count = frauds,
                     fraud_rate = (if rate \<noteq> 0 then rate else 0)\<rparr>)"

text \<open>\<open>FeatureEngineer._get_merchant_stats\<close>: the cache is filled on a successful read.\<close>

definition get_merchant_stats_cached ::
  "(string \<rightharpoonup> MerchantStats) \<Rightarrow> DatabaseManager \<Rightarrow> string
     \<Rightarrow> (py_error + MerchantStats) \<times> (string \<rightharpoonup> MerchantStats)" where
  "get_merchant_stats_cached cache db m =
     (case cache m of
        Some stats \<Rightarrow> (Inr stats, cache)
      | None \<Rightarrow>
          (case get_merchant_stats db m of
             Inl e \<Rightarrow> (Inl e, cache)
           | Inr stats \<Rightarrow> (Inr stats, cache(m \<mapsto> stats))))"

section \<open>Concrete inputs\<close>

text \<open>
  Two processes: their builtin \<open>hash\<close> functions differ, \<open>geodesic\<close> is the same
  (5570 km between the two points used below).
\<close>

definition E0 :: env where
  "E0 = \<lparr>py_hash = (\<lambda>s. int (length s)), geodesic_km = (\<lambda>p q. Inr 5570)\<rparr>"

definition E1 :: env where
  "E1 = \<lparr>py_hash = (\<lambda>s. int (length s) + 1), geodesic_km = (\<lambda>p q. Inr 5570)\<rparr>"

text \<open>A third process whose hash values differ from those of \<open>E0\<close> by 1000.\<close>

definition E2 :: env where
  "E2 = \<lparr>py_hash = (\<lambda>s. int (length s) + 1000), geodesic_km = (\<lambda>p q. Inr 5570)\<rparr>"

definition T0 :: Transaction where
  "T0 = \<lparr>txn_id = ''t-3'', ts = 1700000000000000, amount = 100, merchant_cat = ''retail'',
          merchant_id = ''MERCH001'', mcc = ''5411'', currency = ''USD'', country = ''UK'',
          city = ''London'', lat = Some (515074 / 10000), lon = Some (- 1278 / 10000),
          channel = CARD_PRESENT, card_id = ''CARD001'', customer_id = ''CUST001'',
          device_id = Some ''DEVICE001'', ip = Some ''192.168.1.1'', is_fraud = None\<rparr>"

text \<open>The same transaction from another device.\<close>

definition T_device :: Transaction where
  "T_device = T0\<lparr>device_id := Some ''DEVICE002''\<rparr>"

text \<open>A transaction without coordinates.\<close>

definition T_nocoord :: Transaction where
  "T_nocoord = T0\<lparr>lat := None, lon := None\<rparr>"

definition h_ny :: hist where
  "h_ny = \<lparr>h_ts = 1700000000000000 - 600000000, h_amount = 0, h_merchant_id = ''MERCH001'',
            h_country = ''US'', h_city = ''New York'', h_lat = Some (407128 / 10000),
            h_lon = Some (- 740060 / 10000), h_device_id = Some ''DEVICE001'',
            h_ip = Some ''192.168.1.1''\<rparr>"

definition h_old :: hist where
  "h_old = \<lparr>h_ts = 1700000000000000 - 7200000000, h_amount = 0, h_merchant_id = ''MERCH002'',
             h_country = ''US'', h_city = ''New York'', h_lat = None, h_lon = None,
             h_device_id = Some ''DEVICE001'', h_ip = Some ''192.168.1.1''\<rparr>"

text \<open>
  History, most recent first: ten minutes and two hours before \<open>T0\<close>. Both rows have
  the stored amount \<open>0.00\<close>, so no amount of the history is positive.
\<close>

definition H0 :: "hist list" where
  "H0 = [h_ny, h_old]"

text \<open>The same history with the stored amounts 20.00 and 30.00.\<close>

definition H_paid :: "hist list" where
  "H_paid = [h_ny\<lparr>h_amount := 20\<rparr>, h_old\<lparr>h_amount := 30\<rparr>]"

text \<open>A history whose most recent transaction has the timestamp of \<open>T0\<close>.\<close>

definition H_same_ts :: "hist list" where
  "H_same_ts = [h_ny\<lparr>h_ts := 1700000000000000\<rparr>, h_old]"

definition M0 :: MerchantStats where
  "M0 = \<lparr>total_transactions = 4, avg_amount = 25, fraud_count = 1, fraud_rate = 1 / 4\<rparr>"

definition fv0 :: FeatureVector where
  "fv0 = \<lparr>fv_amount = 100, amount_z_score = 0, amount_log = 461512 / 100000,
           amount_rolling_mean_1h = 0, amount_rolling_std_1h = 1,
           amount_rolling_mean_24h = 0, amount_rolling_std_24h = 1,
           txn_count_5m = 0, txn_count_1h = 1, txn_count_24h = 2,
           distinct_merchants_5m = 0, distinct_merchants_1h = 1, distinct_merchants_24h = 2,
           distance_from_home = 0, speed_from_last_txn = Some 33420,
           country_change = True, city_change = True,
           hour_of_day = 22, day_of_week = 1, is_holiday = False, is_weekend = False,
           merchant_fraud_rate = 1 / 4, mcc_fraud_rate = 1 / 100, merchant_txn_count = 4,
           device_rarity_score = 1, ip_rarity_score = 1,
           device_change = False, ip_change = False,
           channel_card_present = True, channel_web = False, channel_app = False,
           merchant_id_encoded = 8 / 1000, mcc_encoded = 4 / 1000, country_encoded = 2 / 1000\<rparr>"

definition no_layer :: Linear where
  "no_layer = \<lparr>weight = [], bias = []\<rparr>"

definition A0 :: Autoencoder where
  "A0 = \<lparr>encoder_0 = no_layer, encoder_2 = no_layer, decoder_0 = no_layer, decoder_2 = no_layer\<rparr>"

text \<open>
  A loaded detector whose forest scores every row \<open>-0.3\<close> and whose autoencoder is absent.
\<close>

definition d_forest :: FraudDetector where
  "d_forest = \<lparr>isolation_forest = Some (\<lambda>x. Inr (- 3 / 10)), autoencoder = None,
                scaler = None, self_threshold = 95 / 100, model_loaded = True\<rparr>"

text \<open>
  A loaded detector with the unfitted forest that the handler of
  \<open>_train_isolation_forest\<close> installs: \<open>score_samples\<close> raises on every row. Its
  autoencoder is absent.
\<close>

definition d_raising_forest :: FraudDetector where
  "d_raising_forest = \<lparr>isolation_forest = Some (\<lambda>x. Inl NotFittedError), autoencoder = None,
                        scaler = None, self_threshold = 95 / 100, model_loaded = True\<rparr>"

text \<open>
  A loaded detector with the fresh, unfitted \<open>StandardScaler()\<close> that \<open>load_models\<close>
  installs when \<open>scaler.joblib\<close> is absent; its forest scores every row \<open>-1\<close>.
\<close>

definition d_unfitted :: FraudDetector where
  "d_unfitted = \<lparr>isolation_forest = Some (\<lambda>x. Inr (- 1)), autoencoder = Some A0,
                  scaler = Some Unfitted, self_threshold = 95 / 100, model_loaded = True\<rparr>"

definition db0 :: DatabaseManager where
  "db0 = \<lparr>pool_open = True, transactions = [], features_rel = [], scores = []\<rparr>"

definition r0 :: ScoreResult where
  "r0 = \<lparr>score = 1 / 2, threshold = 95 / 100, is_alert = False, model_used = ''fallback'',
          explanation_of = ErrorExplanation ''Model scoring failed'', confidence = 0\<rparr>"

section \<open>Evaluation rules\<close>

lemmas fe_defs = engineer_features_def engineer_features_try_def get_default_features_def
  calculate_amount_features_def py_log_def bind_err_def
  calculate_velocity_features_def calculate_geo_features_def calculate_time_features_def
  calculate_merchant_features_def calculate_device_features_def calculate_channel_features_def
  change_expr_def py_and_def speed_of_def encode_def
  minutes_def hours_def len_set_def total_hours_def
  BOOL_TRUE_def BOOL_FALSE_def lower_char_def

lemmas input_defs = E0_def E1_def E2_def T0_def T_device_def T_nocoord_def h_ny_def h_old_def
  H0_def H_paid_def H_same_ts_def M0_def

lemmas score_defs = FraudDetector_score_def score_try_def bind_err_def ScoreResult_new_def
  isolation_forest_score_def autoencoder_score_def autoencoder_score_try_def

section \<open>Velocity features\<close>

lemma length_filter_mono:
  assumes "\<And>x. P x \<Longrightarrow> Q x"
  shows "length (filter P xs) \<le> length (filter Q xs)"
  using assms by (induction xs) auto

lemma len_set_card: "len_set xs = card (set xs)"
  by (simp add: len_set_def length_remdups_card_conv)

lemma len_set_filter_mono:
  assumes "\<And>x. P x \<Longrightarrow> Q x"
  shows "len_set (map f (filter P xs)) \<le> len_set (map f (filter Q xs))"
proof -
  have "set (map f (filter P xs)) \<subseteq> set (map f (filter Q xs))"
    using assms by auto
  then show ?thesis
    unfolding len_set_card by (intro card_mono) simp_all
qed

lemma len_set_map_le: "len_set (map f xs) \<le> length xs"
  unfolding len_set_def by (metis length_map length_remdups_leq)

lemma calculate_velocity_features_monotone:
  "vf_txn_count_5m (calculate_velocity_features T H) \<le> vf_txn_count_1h (calculate_velocity_features T H)"
  "vf_txn_count_1h (calculate_velocity_features T H) \<le> vf_txn_count_24h (calculate_velocity_features T H)"
  "vf_distinct_merchants_5m (calculate_velocity_features T H) \<le> vf_distinct_merchants_1h (calculate_velocity_features T H)"
  "vf_distinct_merchants_1h (calculate_velocity_features T H) \<le> vf_distinct_merchants_24h (calculate_velocity_features T H)"
  "vf_distinct_merchants_5m (calculate_velocity_features T H) \<le> vf_txn_count_5m (calculate_velocity_features T H)"
  "vf_distinct_merchants_1h (calculate_velocity_features T H) \<le> vf_txn_count_1h (calculate_velocity_features T H)"
  "vf_distinct_merchants_24h (calculate_velocity_features T H) \<le> vf_txn_count_24h (calculate_velocity_features T H)"
  unfolding calculate_velocity_features_def Let_def
  by (auto simp: minutes_def hours_def len_set_map_le
      intro!: length_filter_mono len_set_filter_mono)

lemma try_velocity:
  assumes "engineer_features_try E T history stats = Inr fv"
  shows "\<exists>H. history = Inr H \<and>
     txn_count_5m fv = vf_txn_count_5m (calculate_velocity_features T H) \<and>
     txn_count_1h fv = vf_txn_count_1h (calculate_velocity_features T H) \<and>
     txn_count_24h fv = vf_txn_count_24h (calculate_velocity_features T H) \<and>
     distinct_merchants_5m fv = vf_distinct_merchants_5m (calculate_velocity_features T H) \<and>
     distinct_merchants_1h fv = vf_distinct_merchants_1h (calculate_velocity_features T H) \<and>
     distinct_merchants_24h fv = vf_distinct_merchants_24h (calculate_velocity_features T H)"
  using assms unfolding engineer_features_try_def bind_err_def
  by (auto simp: Let_def split: sum.splits)

lemma default_velocity:
  assumes "get_default_features T = Inr fv"
  shows "txn_count_5m fv = 0 \<and> txn_count_1h fv = 0 \<and> txn_count_24h fv = 0 \<and>
     distinct_merchants_5m fv = 0 \<and> distinct_merchants_1h fv = 0 \<and> distinct_merchants_24h fv = 0"
  using assms unfolding get_default_features_def
  by (auto split: sum.splits)

lemma engineer_features_cases:
  assumes "engineer_features E T history stats = Inr fv"
  shows "engineer_features_try E T history stats = Inr fv \<or> get_default_features T = Inr fv"
  using assms unfolding engineer_features_def by (auto split: sum.splits)

text \<open>
  Claim C10. In every feature vector that \<open>engineer_features\<close> returns, on the computed
  path and on the default path, the transaction counts grow with the window (5 minutes,
  1 hour, 24 hours), so do the counts of distinct merchants, and within each window the
  number of distinct merchants is at most the number of transactions.
\<close>

theorem velocity_features_monotone:
  assumes "engineer_features E T history stats = Inr fv"
  shows "txn_count_5m fv \<le> txn_count_1h fv \<and> txn_count_1h fv \<le> txn_count_24h fv \<and>
         distinct_merchants_5m fv \<le> distinct_merchants_1h fv \<and>
         distinct_merchants_1h fv \<le> distinct_merchants_24h fv \<and>
         distinct_merchants_5m fv \<le> txn_count_5m fv \<and>
         distinct_merchants_1h fv \<le> txn_count_1h fv \<and>
         distinct_merchants_24h fv \<le> txn_count_24h fv"
proof -
  from engineer_features_cases [OF assms] show ?thesis
  proof
    assume "engineer_features_try E T history stats = Inr fv"
    then obtain H where "txn_count_5m fv = vf_txn_count_5m (calculate_velocity_features T H)"
      "txn_count_1h fv = vf_txn_count_1h (calculate_velocity_features T H)"
      "txn_count_24h fv = vf_txn_count_24h (calculate_velocity_features T H)"
      "distinct_merchants_5m fv = vf_distinct_merchants_5m (calculate_velocity_features T H)"
      "distinct_merchants_1h fv = vf_distinct_merchants_1h (calculate_velocity_features T H)"
      "distinct_merchants_24h fv = vf_distinct_merchants_24h (calculate_velocity_features T H)"
      using try_velocity by blast
    then show ?thesis
      by (simp add: calculate_velocity_features_monotone)
  next
    assume "get_default_features T = Inr fv"
    then show ?thesis using default_velocity by simp
  qed
qed

lemma eval_T0_H0:
  "\<exists>fv. engineer_features E0 T0 (Inr H0) (Inr M0) = Inr fv \<and>
        txn_count_5m fv = 0 \<and> txn_count_1h fv = 1 \<and> txn_count_24h fv = 2 \<and>
        distinct_merchants_5m fv = 0 \<and> distinct_merchants_1h fv = 1 \<and>
        distinct_merchants_24h fv = 2"
  by (simp add: fe_defs input_defs Let_def)

text \<open>
  Witness for C10: with one transaction ten minutes ago and one two hours ago, at two
  merchants, the counts are 0, 1, 2 and the distinct merchants 0, 1, 2.
\<close>

theorem velocity_features_monotone_witness:
  "\<exists>fv. engineer_features E0 T0 (Inr H0) (Inr M0) = Inr fv \<and>
        txn_count_5m fv = 0 \<and> txn_count_1h fv = 1 \<and> txn_count_24h fv = 2 \<and>
        distinct_merchants_5m fv = 0 \<and> distinct_merchants_1h fv = 1 \<and>
        distinct_merchants_24h fv = 2 \<and>
        txn_count_5m fv \<le> txn_count_1h fv \<and> txn_count_1h fv \<le> txn_count_24h fv \<and>
        distinct_merchants_5m fv \<le> distinct_merchants_1h fv \<and>
        distinct_merchants_1h fv \<le> distinct_merchants_24h fv \<and>
        distinct_merchants_5m fv \<le> txn_count_5m fv \<and>
        distinct_merchants_1h fv \<le> txn_count_1h fv \<and>
        distinct_merchants_24h fv \<le> txn_count_24h fv"
proof -
  obtain fv where fv: "engineer_features E0 T0 (Inr H0) (Inr M0) = Inr fv"
    and vals: "txn_count_5m fv = 0" "txn_count_1h fv = 1" "txn_count_24h fv = 2"
      "distinct_merchants_5m fv = 0" "distinct_merchants_1h fv = 1" "distinct_merchants_24h fv = 2"
    using eval_T0_H0 by blast
  from velocity_features_monotone [OF fv] fv vals show ?thesis by blast
qed

section \<open>Histories with positive amounts\<close>

text \<open>
  When the history has a positive amount and the standard deviation of the positive
  amounts is positive (or there is one such amount, where it is taken to be 1.0), the
  amount features raise \<open>TypeError\<close>, and \<open>engineer_features\<close> returns the default
  vector.
\<close>

lemma amount_features_TypeError:
  assumes "amounts = map h_amount (filter (\<lambda>txn. h_amount txn > 0) H)"
    and "amounts \<noteq> []"
    and "length amounts = 1 \<or> 0 < np_std amounts"
  shows "calculate_amount_features T H = Inl TypeError"
  using assms(2,3) unfolding calculate_amount_features_def assms(1) [symmetric] Let_def
  by (auto simp: bind_err_def)

lemma paid_history_raises:
  "calculate_amount_features T0 H_paid = Inl TypeError \<and>
   engineer_features_try E0 T0 (Inr H_paid) (Inr M0) = Inl TypeError \<and>
   engineer_features E0 T0 (Inr H_paid) (Inr M0) = get_default_features T0"
proof -
  have "calculate_amount_features T0 H_paid = Inl TypeError"
    by (rule amount_features_TypeError [where amounts = "[20, 30]"])
       (simp_all add: input_defs np_std_def np_mean_def)
  then show ?thesis
    by (simp add: engineer_features_def engineer_features_try_def bind_err_def)
qed

section \<open>The default vector\<close>

lemma get_default_features_total:
  assumes "amount T > 0"
  shows "get_default_features T =
     Inr \<lparr>fv_amount = amount T, amount_z_score = 0, amount_log = ln (amount T + 1),
          amount_rolling_mean_1h = 0, amount_rolling_std_1h = 1,
          amount_rolling_mean_24h = 0, amount_rolling_std_24h = 1,
          txn_count_5m = 0, txn_count_1h = 0, txn_count_24h = 0,
          distinct_merchants_5m = 0, distinct_merchants_1h = 0, distinct_merchants_24h = 0,
          distance_from_home = 0, speed_from_last_txn = None,
          country_change = False, city_change = False,
          hour_of_day = dt_hour (ts T), day_of_week = dt_weekday (ts T),
          is_holiday = False, is_weekend = (dt_weekday (ts T) \<ge> 5),
          merchant_fraud_rate = 0, mcc_fraud_rate = 1 / 100, merchant_txn_count = 0,
          device_rarity_score = 1, ip_rarity_score = 1,
          device_change = False, ip_change = False,
          channel_card_present = (channel T = CARD_PRESENT),
          channel_web = (channel T = WEB), channel_app = (channel T = APP),
          merchant_id_encoded = 1 / 2, mcc_encoded = 1 / 2, country_encoded = 1 / 2\<rparr>"
  using assms by (simp add: get_default_features_def py_log_def)

text \<open>\<open>engineer_features\<close> returns a vector for every transaction with a positive amount.\<close>

lemma engineer_features_total:
  assumes "amount T > 0"
  shows "\<exists>fv. engineer_features E T history stats = Inr fv"
  using get_default_features_total [OF assms]
  by (cases "engineer_features_try E T history stats") (simp_all add: engineer_features_def)

text \<open>
  Claim C4, as the code has it. For a transaction with a positive amount (the schema's
  validator), when the \<open>try\<close> block of \<open>engineer_features\<close> raises, the call returns
  the default vector: every history-derived field has its empty-history default, the
  merchant fields are 0, the time fields and the channel flags are computed from the
  transaction, and the three categorical encodings are the constant 0.5.
\<close>

theorem default_vector_on_failure:
  assumes "amount T > 0"
    and "engineer_features_try E T history stats = Inl e"
  shows "engineer_features E T history stats =
     Inr \<lparr>fv_amount = amount T, amount_z_score = 0, amount_log = ln (amount T + 1),
          amount_rolling_mean_1h = 0, amount_rolling_std_1h = 1,
          amount_rolling_mean_24h = 0, amount_rolling_std_24h = 1,
          txn_count_5m = 0, txn_count_1h = 0, txn_count_24h = 0,
          distinct_merchants_5m = 0, distinct_merchants_1h = 0, distinct_merchants_24h = 0,
          distance_from_home = 0, speed_from_last_txn = None,
          country_change = False, city_change = False,
          hour_of_day = dt_hour (ts T), day_of_week = dt_weekday (ts T),
          is_holiday = False, is_weekend = (dt_weekday (ts T) \<ge> 5),
          merchant_fraud_rate = 0, mcc_fraud_rate = 1 / 100, merchant_txn_count = 0,
          device_rarity_score = 1, ip_rarity_score = 1,
          device_change = False, ip_change = False,
          channel_card_present = (channel T = CARD_PRESENT),
          channel_web = (channel T = WEB), channel_app = (channel T = APP),
          merchant_id_encoded = 1 / 2, mcc_encoded = 1 / 2, country_encoded = 1 / 2\<rparr>"
  using assms(2) get_default_features_total [OF assms(1)]
  by (simp add: engineer_features_def)

lemma T0_amount: "amount T0 > 0"
  by (simp add: T0_def)

lemma try_storage_error:
  "engineer_features_try E0 T0 (Inl StorageError) (Inr M0) = Inl StorageError"
  by (simp add: engineer_features_try_def bind_err_def)

text \<open>
  Witness for C4: the history read raises \<open>StorageError\<close> for the transaction \<open>T0\<close>
  (amount 100, a Tuesday at 22h, channel card_present).
\<close>

theorem default_vector_on_failure_witness:
  "amount T0 > 0 \<and>
   engineer_features_try E0 T0 (Inl StorageError) (Inr M0) = Inl StorageError \<and>
   engineer_features E0 T0 (Inl StorageError) (Inr M0) =
     Inr \<lparr>fv_amount = 100, amount_z_score = 0, amount_log = ln 101,
          amount_rolling_mean_1h = 0, amount_rolling_std_1h = 1,
          amount_rolling_mean_24h = 0, amount_rolling_std_24h = 1,
          txn_count_5m = 0, txn_count_1h = 0, txn_count_24h = 0,
          distinct_merchants_5m = 0, distinct_merchants_1h = 0, distinct_merchants_24h = 0,
          distance_from_home = 0, speed_from_last_txn = None,
          country_change = False, city_change = False,
          hour_of_day = 22, day_of_week = 1,
          is_holiday = False, is_weekend = False,
          merchant_fraud_rate = 0, mcc_fraud_rate = 1 / 100, merchant_txn_count = 0,
          device_rarity_score = 1, ip_rarity_score = 1,
          device_change = False, ip_change = False,
          channel_card_present = True, channel_web = False, channel_app = False,
          merchant_id_encoded = 1 / 2, mcc_encoded = 1 / 2, country_encoded = 1 / 2\<rparr>"
  using default_vector_on_failure [OF T0_amount try_storage_error] T0_amount try_storage_error
  by (simp add: T0_def dt_hour_def dt_weekday_def)

text \<open>
  Counterexample to C4 as stated: when the history read raises for \<open>T0\<close>, the three
  encodings of the returned vector are 0.5, while the encodings computed from \<open>T0\<close> in
  this process are 0.008, 0.004 and 0.002.
\<close>

theorem default_encodings_counterexample:
  "engineer_features_try E0 T0 (Inl StorageError) (Inr M0) = Inl StorageError \<and>
   map_sum id merchant_id_encoded (engineer_features E0 T0 (Inl StorageError) (Inr M0)) = Inr (1 / 2) \<and>
   map_sum id mcc_encoded (engineer_features E0 T0 (Inl StorageError) (Inr M0)) = Inr (1 / 2) \<and>
   map_sum id country_encoded (engineer_features E0 T0 (Inl StorageError) (Inr M0)) = Inr (1 / 2) \<and>
   encode E0 (merchant_id T0) = 8 / 1000 \<and>
   encode E0 (mcc T0) = 4 / 1000 \<and>
   encode E0 (country T0) = 2 / 1000"
  by (simp add: fe_defs input_defs)

section \<open>Device and IP change\<close>

text \<open>
  Claim C6 at a failing input. The most recent history transaction was made on
  \<open>DEVICE001\<close>, the new one on \<open>DEVICE002\<close>; both ids are present and differ, so the
  claim gives \<open>device_change = true\<close>. The expression of the code evaluates to the string
  \<open>DEVICE001\<close>, the \<open>bool\<close> field rejects it, the \<open>try\<close> block raises, and the
  returned vector is the default one with \<open>device_change = false\<close>.
\<close>

theorem device_change_failing_input:
  "H0 = h_ny # [h_old] \<and> h_device_id h_ny = Some ''DEVICE001'' \<and>
   device_id T_device = Some ''DEVICE002'' \<and>
   df_device_change (calculate_device_features T_device H0) = PyStr ''DEVICE001'' \<and>
   engineer_features_try E0 T_device (Inr H0) (Inr M0) = Inl ValidationError \<and>
   engineer_features E0 T_device (Inr H0) (Inr M0) = get_default_features T_device \<and>
   map_sum id device_change (engineer_features E0 T_device (Inr H0) (Inr M0)) = Inr False"
  by (simp add: fe_defs input_defs Let_def)

section \<open>Speed from the last transaction\<close>

lemma try_speed:
  assumes "engineer_features_try E T (Inr H) stats = Inr fv"
  shows "speed_from_last_txn fv = gf_speed_from_last_txn (calculate_geo_features E T H)"
  using assms unfolding engineer_features_try_def bind_err_def
  by (auto simp: Let_def split: sum.splits)

text \<open>
  Counterexample to C5 as stated: the most recent history transaction has the timestamp
  of \<open>T0\<close>, so the time difference is 0, and the feature is \<open>0.0\<close>, not null. The
  history has no positive amount, the device and the IP are unchanged: the \<open>try\<close> block
  completes.
\<close>

theorem speed_zero_counterexample:
  "ts T0 - h_ts (hd H_same_ts) \<le> 0 \<and>
   map_sum id speed_from_last_txn (engineer_features E0 T0 (Inr H_same_ts) (Inr M0)) = Inr (Some 0)"
  by (simp add: fe_defs input_defs Let_def)

text \<open>
  Claim C5, as the code has it. For a non-empty history and a vector computed by the
  \<open>try\<close> block: the speed is null when one of the four coordinates is missing; when the
  four coordinates are present and non-zero and \<open>geodesic\<close> returns a distance, the speed
  is the distance divided by the elapsed hours if the time difference is positive, and
  \<open>0.0\<close> if it is not.
\<close>

theorem speed_from_last_txn_cases:
  assumes "engineer_features_try E T (Inr (last_txn # rest)) stats = Inr fv"
  shows "(lat T = None \<or> lon T = None \<or> h_lat last_txn = None \<or> h_lon last_txn = None
            \<longrightarrow> speed_from_last_txn fv = None) \<and>
         (\<forall>hlat hlon tlat tlon distance.
            h_lat last_txn = Some hlat \<and> h_lon last_txn = Some hlon \<and>
            lat T = Some tlat \<and> lon T = Some tlon \<and>
            hlat \<noteq> 0 \<and> hlon \<noteq> 0 \<and> tlat \<noteq> 0 \<and> tlon \<noteq> 0 \<and>
            geodesic_km E (hlat, hlon) (tlat, tlon) = Inr distance
            \<longrightarrow> speed_from_last_txn fv =
                  Some (if total_hours (ts T - h_ts last_txn) > 0
                        then distance / total_hours (ts T - h_ts last_txn) else 0))"
  unfolding try_speed [OF assms]
  by (auto simp: calculate_geo_features_def speed_of_def Let_def)

lemma eval_try_T0_H0:
  "\<exists>fv. engineer_features_try E0 T0 (Inr (h_ny # [h_old])) (Inr M0) = Inr fv"
  by (simp add: fe_defs input_defs Let_def)

lemma eval_try_T_nocoord:
  "\<exists>fv. engineer_features_try E0 T_nocoord (Inr (h_ny # [h_old])) (Inr M0) = Inr fv"
  by (simp add: fe_defs input_defs Let_def)

text \<open>
  Witness for C5: New York ten minutes before London, 5570 km apart, gives 33420 km/h;
  the same transaction without coordinates gives null.
\<close>

theorem speed_from_last_txn_cases_witness:
  "(\<exists>fv. engineer_features_try E0 T0 (Inr (h_ny # [h_old])) (Inr M0) = Inr fv \<and>
         speed_from_last_txn fv = Some 33420) \<and>
   (\<exists>fv. engineer_features_try E0 T_nocoord (Inr (h_ny # [h_old])) (Inr M0) = Inr fv \<and>
         speed_from_last_txn fv = None)"
proof -
  obtain fv where fv: "engineer_features_try E0 T0 (Inr (h_ny # [h_old])) (Inr M0) = Inr fv"
    using eval_try_T0_H0 by blast
  have coords: "h_lat h_ny = Some (407128 / 10000) \<and> h_lon h_ny = Some (- 740060 / 10000) \<and>
      lat T0 = Some (515074 / 10000) \<and> lon T0 = Some (- 1278 / 10000) \<and>
      (407128 / 10000 :: real) \<noteq> 0 \<and> (- 740060 / 10000 :: real) \<noteq> 0 \<and>
      (515074 / 10000 :: real) \<noteq> 0 \<and> (- 1278 / 10000 :: real) \<noteq> 0 \<and>
      geodesic_km E0 (407128 / 10000, - 740060 / 10000) (515074 / 10000, - 1278 / 10000) = Inr 5570"
    by (simp add: input_defs)
  have "speed_from_last_txn fv =
      Some (if total_hours (ts T0 - h_ts h_ny) > 0
            then 5570 / total_hours (ts T0 - h_ts h_ny) else 0)"
    using speed_from_last_txn_cases [OF fv] coords by blast
  then have one: "speed_from_last_txn fv = Some 33420"
    by (simp add: input_defs total_hours_def)
  obtain fv' where fv': "engineer_features_try E0 T_nocoord (Inr (h_ny # [h_old])) (Inr M0) = Inr fv'"
    using eval_try_T_nocoord by blast
  have "lat T_nocoord = None"
    by (simp add: input_defs)
  then have "speed_from_last_txn fv' = None"
    using speed_from_last_txn_cases [OF fv'] by blast
  with one show ?thesis using fv fv' by blast
qed

section \<open>Determinism and the categorical encodings\<close>

lemma try_hash_independent:
  assumes "geodesic_km Ea = geodesic_km Eb"
  shows "map_sum id (\<lambda>fv. fv\<lparr>merchant_id_encoded := 0, mcc_encoded := 0, country_encoded := 0\<rparr>)
           (engineer_features_try Ea T history stats) =
         map_sum id (\<lambda>fv. fv\<lparr>merchant_id_encoded := 0, mcc_encoded := 0, country_encoded := 0\<rparr>)
           (engineer_features_try Eb T history stats)"
proof -
  have "speed_of Ea T l = speed_of Eb T l" for l
    unfolding speed_of_def assms by (rule refl)
  then have "calculate_geo_features Ea T H = calculate_geo_features Eb T H" for H
    by (simp add: calculate_geo_features_def split: list.splits)
  then show ?thesis
    unfolding engineer_features_try_def bind_err_def
    by (auto simp: Let_def split: sum.splits)
qed

lemma try_encodings:
  assumes "engineer_features_try E T history stats = Inr fv"
  shows "merchant_id_encoded fv = encode E (merchant_id T)"
    and "mcc_encoded fv = encode E (mcc T)"
    and "country_encoded fv = encode E (country T)"
  using assms unfolding engineer_features_try_def bind_err_def
  by (auto simp: Let_def split: sum.splits)

lemma erase_eq:
  fixes fv1 fv2 :: FeatureVector
  assumes "fv1\<lparr>merchant_id_encoded := 0, mcc_encoded := 0, country_encoded := 0\<rparr> =
           fv2\<lparr>merchant_id_encoded := 0, mcc_encoded := 0, country_encoded := 0\<rparr>"
    and "merchant_id_encoded fv1 = merchant_id_encoded fv2"
    and "mcc_encoded fv1 = mcc_encoded fv2"
    and "country_encoded fv1 = country_encoded fv2"
  shows "fv1 = fv2"
  using assms by (cases fv1, cases fv2) simp

text \<open>
  Counterexample to C7 as stated: on the empty history the \<open>try\<close> block completes, and
  two processes whose builtin \<open>hash\<close> differs return different vectors for the same
  transaction, history and merchant statistics; the field \<open>merchant_id_encoded\<close> is 0.008
  in one and 0.009 in the other.
\<close>

theorem hash_encoding_counterexample:
  "map_sum id merchant_id_encoded (engineer_features E0 T0 (Inr []) (Inr M0)) = Inr (8 / 1000) \<and>
   map_sum id merchant_id_encoded (engineer_features E1 T0 (Inr []) (Inr M0)) = Inr (9 / 1000) \<and>
   engineer_features E0 T0 (Inr []) (Inr M0) \<noteq> engineer_features E1 T0 (Inr []) (Inr M0)"
proof -
  have a: "map_sum id merchant_id_encoded (engineer_features E0 T0 (Inr []) (Inr M0)) = Inr (8 / 1000)"
    by (simp add: fe_defs input_defs Let_def)
  have b: "map_sum id merchant_id_encoded (engineer_features E1 T0 (Inr []) (Inr M0)) = Inr (9 / 1000)"
    by (simp add: fe_defs input_defs Let_def)
  have "engineer_features E0 T0 (Inr []) (Inr M0) \<noteq> engineer_features E1 T0 (Inr []) (Inr M0)"
  proof
    assume "engineer_features E0 T0 (Inr []) (Inr M0) = engineer_features E1 T0 (Inr []) (Inr M0)"
    with a b have "(Inr (8 / 1000) :: py_error + real) = Inr (9 / 1000)" by simp
    then show False by simp
  qed
  with a b show ?thesis by blast
qed

text \<open>
  Claim C7, as the code has it. Two runs of \<open>engineer_features\<close> on the same
  transaction, history outcome and merchant statistics, in processes with the same
  \<open>geodesic\<close>, agree on every field other than the three categorical encodings; they
  agree on the whole vector when the two processes' \<open>hash\<close> values of the merchant id,
  the MCC and the country are equal modulo 1000, as they are within one process.
\<close>

theorem feature_vector_determinism:
  assumes "engineer_features Ea T history stats = Inr fv1"
    and "engineer_features Eb T history stats = Inr fv2"
    and "geodesic_km Ea = geodesic_km Eb"
  shows "fv1\<lparr>merchant_id_encoded := 0, mcc_encoded := 0, country_encoded := 0\<rparr> =
         fv2\<lparr>merchant_id_encoded := 0, mcc_encoded := 0, country_encoded := 0\<rparr> \<and>
         (py_hash Ea (merchant_id T) mod 1000 = py_hash Eb (merchant_id T) mod 1000 \<and>
          py_hash Ea (mcc T) mod 1000 = py_hash Eb (mcc T) mod 1000 \<and>
          py_hash Ea (country T) mod 1000 = py_hash Eb (country T) mod 1000
          \<longrightarrow> fv1 = fv2)"
proof (cases "engineer_features_try Ea T history stats")
  case (Inl e)
  then have "\<exists>e'. engineer_features_try Eb T history stats = Inl e'"
    using try_hash_independent [OF assms(3), of T history stats]
    by (cases "engineer_features_try Eb T history stats") simp_all
  then obtain e' where e': "engineer_features_try Eb T history stats = Inl e'"
    by blast
  have "get_default_features T = Inr fv1"
    using Inl assms(1) by (simp add: engineer_features_def)
  moreover have "get_default_features T = Inr fv2"
    using e' assms(2) by (simp add: engineer_features_def)
  ultimately have "Inr fv1 = (Inr fv2 :: py_error + FeatureVector)"
    by (rule trans [OF sym])
  then have "fv1 = fv2" by (rule Inr_inject)
  then show ?thesis by simp
next
  case (Inr a)
  then obtain b where b: "engineer_features_try Eb T history stats = Inr b"
    using try_hash_independent [OF assms(3), of T history stats]
    by (cases "engineer_features_try Eb T history stats") simp_all
  have eqa: "a = fv1"
    using Inr assms(1) by (simp add: engineer_features_def)
  have eqb: "b = fv2"
    using b assms(2) by (simp add: engineer_features_def)
  have erased: "fv1\<lparr>merchant_id_encoded := 0, mcc_encoded := 0, country_encoded := 0\<rparr> =
         fv2\<lparr>merchant_id_encoded := 0, mcc_encoded := 0, country_encoded := 0\<rparr>"
    using try_hash_independent [OF assms(3), of T history stats]
    unfolding Inr b eqa eqb by simp
  have "fv1 = fv2"
    if h: "py_hash Ea (merchant_id T) mod 1000 = py_hash Eb (merchant_id T) mod 1000"
      "py_hash Ea (mcc T) mod 1000 = py_hash Eb (mcc T) mod 1000"
      "py_hash Ea (country T) mod 1000 = py_hash Eb (country T) mod 1000"
  proof (rule erase_eq [OF erased])
    show "merchant_id_encoded fv1 = merchant_id_encoded fv2"
      using try_encodings(1) [OF Inr] try_encodings(1) [OF b] h(1)
      unfolding eqa eqb encode_def by simp
    show "mcc_encoded fv1 = mcc_encoded fv2"
      using try_encodings(2) [OF Inr] try_encodings(2) [OF b] h(2)
      unfolding eqa eqb encode_def by simp
    show "country_encoded fv1 = country_encoded fv2"
      using try_encodings(3) [OF Inr] try_encodings(3) [OF b] h(3)
      unfolding eqa eqb encode_def by simp
  qed
  with erased show ?thesis by blast
qed

lemma eval_E0:
  "\<exists>fv. engineer_features E0 T0 (Inr []) (Inr M0) = Inr fv \<and> merchant_id_encoded fv = 8 / 1000"
  by (simp add: fe_defs input_defs Let_def)

lemma eval_E1:
  "\<exists>fv. engineer_features E1 T0 (Inr []) (Inr M0) = Inr fv \<and> merchant_id_encoded fv = 9 / 1000"
  by (simp add: fe_defs input_defs Let_def)

lemma eval_E2:
  "\<exists>fv. engineer_features E2 T0 (Inr []) (Inr M0) = Inr fv \<and> merchant_id_encoded fv = 8 / 1000"
  by (simp add: fe_defs input_defs Let_def)

lemma hash_E0_E2:
  "py_hash E0 (merchant_id T0) mod 1000 = py_hash E2 (merchant_id T0) mod 1000 \<and>
   py_hash E0 (mcc T0) mod 1000 = py_hash E2 (mcc T0) mod 1000 \<and>
   py_hash E0 (country T0) mod 1000 = py_hash E2 (country T0) mod 1000"
  by (simp add: input_defs)

text \<open>
  Witness for C7, on the empty history: the processes \<open>E0\<close> and \<open>E1\<close> agree outside
  the encodings (0.008 and 0.009 for the merchant id); \<open>E0\<close> and \<open>E2\<close>, whose hash values
  agree modulo 1000, return the same vector.
\<close>

theorem feature_vector_determinism_witness:
  "\<exists>fv1 fv2 fv3.
     engineer_features E0 T0 (Inr []) (Inr M0) = Inr fv1 \<and>
     engineer_features E1 T0 (Inr []) (Inr M0) = Inr fv2 \<and>
     engineer_features E2 T0 (Inr []) (Inr M0) = Inr fv3 \<and>
     merchant_id_encoded fv1 = 8 / 1000 \<and> merchant_id_encoded fv2 = 9 / 1000 \<and>
     geodesic_km E0 = geodesic_km E1 \<and> geodesic_km E0 = geodesic_km E2 \<and>
     fv1\<lparr>merchant_id_encoded := 0, mcc_encoded := 0, country_encoded := 0\<rparr> =
     fv2\<lparr>merchant_id_encoded := 0, mcc_encoded := 0, country_encoded := 0\<rparr> \<and>
     py_hash E0 (merchant_id T0) mod 1000 = py_hash E2 (merchant_id T0) mod 1000 \<and>
     py_hash E0 (mcc T0) mod 1000 = py_hash E2 (mcc T0) mod 1000 \<and>
     py_hash E0 (country T0) mod 1000 = py_hash E2 (country T0) mod 1000 \<and>
     fv1 = fv3"
proof -
  obtain fv1 where fv1: "engineer_features E0 T0 (Inr []) (Inr M0) = Inr fv1"
    and m1: "merchant_id_encoded fv1 = 8 / 1000"
    using eval_E0 by blast
  obtain fv2 where fv2: "engineer_features E1 T0 (Inr []) (Inr M0) = Inr fv2"
    and m2: "merchant_id_encoded fv2 = 9 / 1000"
    using eval_E1 by blast
  obtain fv3 where fv3: "engineer_features E2 T0 (Inr []) (Inr M0) = Inr fv3"
    using eval_E2 by blast
  have g: "geodesic_km E0 = geodesic_km E1"
    by (simp add: E0_def E1_def)
  have g': "geodesic_km E0 = geodesic_km E2"
    by (simp add: E0_def E2_def)
  have one: "fv1\<lparr>merchant_id_encoded := 0, mcc_encoded := 0, country_encoded := 0\<rparr> =
     fv2\<lparr>merchant_id_encoded := 0, mcc_encoded := 0, country_encoded := 0\<rparr>"
    using feature_vector_determinism [OF fv1 fv2 g] by (rule conjunct1)
  have two: "fv1 = fv3"
    using feature_vector_determinism [OF fv1 fv3 g'] hash_E0_E2 by blast
  from fv1 fv2 fv3 m1 m2 g g' one two hash_E0_E2 show ?thesis by blast
qed

section \<open>Scoring\<close>

lemma isolation_forest_score_range:
  "0 \<le> isolation_forest_score d a \<and> isolation_forest_score d a \<le> 1"
  by (simp add: isolation_forest_score_def split: option.splits sum.splits)

lemma MSELoss_nonneg:
  assumes "MSELoss r x = Inr m"
  shows "0 \<le> m"
proof -
  have "0 \<le> sum_list (map (\<lambda>(a, b). (a - b)\<^sup>2) (zip r x))"
    by (rule sum_list_nonneg) auto
  then show ?thesis
    using assms by (auto simp: MSELoss_def split: if_splits)
qed

lemma autoencoder_score_try_range:
  assumes "autoencoder_score_try A S a = Inr v"
  shows "0 \<le> v \<and> v \<le> 1"
  using assms MSELoss_nonneg
  by (fastforce simp: autoencoder_score_try_def bind_err_def split: sum.splits)

lemma autoencoder_score_range:
  "0 \<le> autoencoder_score d a \<and> autoencoder_score d a \<le> 1"
  using autoencoder_score_try_range
  by (auto simp: autoencoder_score_def split: option.splits sum.splits)

lemma ensemble_range:
  fixes x y :: real
  assumes "0 \<le> x" "x \<le> 1" "0 \<le> y" "y \<le> 1"
  shows "0 \<le> 4 / 10 * x + 6 / 10 * y \<and> 4 / 10 * x + 6 / 10 * y \<le> 1"
  using assms by auto

text \<open>The feature array has the 34 columns of the canonical order.\<close>

lemma length_features_to_array: "length (features_to_array features) = 34"
  by (simp add: features_to_array_def)

lemma score_try_ensemble:
  assumes "score_try L d features = Inr r"
  shows "model_used r = ''ensemble'' \<and>
     score r = 4 / 10 * isolation_forest_score (FraudDetector_after L d) (features_to_array features)
             + 6 / 10 * autoencoder_score (FraudDetector_after L d) (features_to_array features) \<and>
     threshold r = self_threshold d \<and>
     is_alert r = (score r > threshold r) \<and>
     confidence r = min (score r * (12 / 10)) 1 \<and>
     0 \<le> score r \<and> score r \<le> 1 \<and> 0 \<le> threshold r \<and> threshold r \<le> 1"
proof (cases "model_loaded d")
  case True
  with assms show ?thesis
    by (auto simp: score_try_def bind_err_def FraudDetector_after_def Let_def ScoreResult_new_def
        split: if_splits)
next
  case False
  with assms obtain self where self: "load_models L d = Inr self"
    by (auto simp: score_try_def bind_err_def split: sum.splits)
  then have thr: "self_threshold self = self_threshold d"
    by (cases L) auto
  from False self assms thr show ?thesis
    by (auto simp: score_try_def bind_err_def FraudDetector_after_def Let_def ScoreResult_new_def
        split: if_splits)
qed

lemma fallback_model_used:
  assumes "score_try L d features = Inl e"
    and "FraudDetector_score L d features = Inr r"
  shows "r = \<lparr>score = 1 / 2, threshold = self_threshold d, is_alert = False,
              model_used = ''fallback'',
              explanation_of = ErrorExplanation ''Model scoring failed'', confidence = 0\<rparr>"
  using assms
  by (auto simp: FraudDetector_score_def ScoreResult_new_def split: if_splits)

lemma score_cases:
  assumes "FraudDetector_score L d features = Inr r"
  shows "score_try L d features = Inr r \<or>
     ((\<exists>e. score_try L d features = Inl e) \<and>
      r = \<lparr>score = 1 / 2, threshold = self_threshold d, is_alert = False,
              model_used = ''fallback'',
              explanation_of = ErrorExplanation ''Model scoring failed'', confidence = 0\<rparr>)"
proof (cases "score_try L d features")
  case (Inl e)
  with fallback_model_used [OF Inl assms] show ?thesis by blast
next
  case (Inr a)
  with assms show ?thesis by (simp add: FraudDetector_score_def)
qed

text \<open>
  With \<open>self.threshold\<close> in \<open>[0, 1]\<close>, the \<open>try\<close> block of \<open>score\<close> raises exactly when
  the models are not loaded and \<open>load_models\<close> raises: the sub-scorers catch their own
  exceptions, and the sub-scores keep the result inside the validated ranges.
\<close>

lemma score_try_raises_iff:
  assumes "0 \<le> self_threshold d" and "self_threshold d \<le> 1"
  shows "(score_try L d features = Inl e) = (\<not> model_loaded d \<and> L = LoadRaised e)"
proof -
  have rng: "0 \<le> 4 / 10 * isolation_forest_score s (features_to_array features)
                 + 6 / 10 * autoencoder_score s (features_to_array features) \<and>
             4 / 10 * isolation_forest_score s (features_to_array features)
                 + 6 / 10 * autoencoder_score s (features_to_array features) \<le> 1" for s
    using isolation_forest_score_range [of s] autoencoder_score_range [of s]
    by (intro ensemble_range) simp_all
  show ?thesis
  proof (cases "model_loaded d")
    case True
    then show ?thesis
      using rng [of d] assms
      by (auto simp: score_try_def bind_err_def Let_def ScoreResult_new_def)
  next
    case False
    show ?thesis
    proof (cases L)
      case (Loaded f a s)
      with False show ?thesis
        using assms
          rng [of "d\<lparr>isolation_forest := Some f, autoencoder := Some a, scaler := Some s,
            model_loaded := True\<rparr>"]
        by (auto simp: score_try_def bind_err_def Let_def ScoreResult_new_def)
    next
      case (Retrained f a s)
      with False show ?thesis
        using assms
          rng [of "d\<lparr>isolation_forest := Some f, autoencoder := Some a, scaler := Some s\<rparr>"]
        by (auto simp: score_try_def bind_err_def Let_def ScoreResult_new_def)
    next
      case (LoadRaised x)
      with False show ?thesis
        by (auto simp: score_try_def bind_err_def)
    qed
  qed
qed

text \<open>
  Claim C1. When scoring succeeds, that is \<open>score\<close> returns a result that is not the
  fallback, the score is 0.4 times the isolation-forest sub-score plus 0.6 times the
  autoencoder sub-score of the detector after the call, both sub-scores, the score and the
  threshold lie in \<open>[0, 1]\<close>, \<open>is_alert\<close> holds exactly when the score exceeds the
  threshold, the threshold is the detector's, and a new detector has threshold 0.95.
\<close>

theorem ensemble_score_result:
  assumes "FraudDetector_score L d features = Inr r"
    and "model_used r = ''ensemble''"
  shows "score r =
           4 / 10 * isolation_forest_score (FraudDetector_after L d) (features_to_array features)
         + 6 / 10 * autoencoder_score (FraudDetector_after L d) (features_to_array features) \<and>
         0 \<le> isolation_forest_score (FraudDetector_after L d) (features_to_array features) \<and>
         isolation_forest_score (FraudDetector_after L d) (features_to_array features) \<le> 1 \<and>
         0 \<le> autoencoder_score (FraudDetector_after L d) (features_to_array features) \<and>
         autoencoder_score (FraudDetector_after L d) (features_to_array features) \<le> 1 \<and>
         0 \<le> score r \<and> score r \<le> 1 \<and> 0 \<le> threshold r \<and> threshold r \<le> 1 \<and>
         is_alert r = (score r > threshold r) \<and>
         threshold r = self_threshold d \<and>
         self_threshold FraudDetector_init = 95 / 100"
proof -
  from score_cases [OF assms(1)] assms(2) have "score_try L d features = Inr r"
    by auto
  from score_try_ensemble [OF this] isolation_forest_score_range autoencoder_score_range
  show ?thesis
    by (simp add: FraudDetector_init_def)
qed

lemma eval_d_forest:
  "\<exists>r. FraudDetector_score (LoadRaised LoadError) d_forest fv0 = Inr r \<and>
        model_used r = ''ensemble'' \<and> score r = 42 / 100 \<and> threshold r = 95 / 100 \<and>
        is_alert r = False \<and> confidence r = 504 / 1000"
  by (simp add: score_defs d_forest_def Let_def)

text \<open>
  Witness for C1: a loaded detector whose forest gives the sub-score 0.3 and whose
  autoencoder is absent (sub-score 0.5) scores 0.42, below the threshold 0.95.
\<close>

theorem ensemble_score_result_witness:
  "\<exists>r. FraudDetector_score (LoadRaised LoadError) d_forest fv0 = Inr r \<and>
        model_used r = ''ensemble'' \<and>
        isolation_forest_score (FraudDetector_after (LoadRaised LoadError) d_forest)
          (features_to_array fv0) = 3 / 10 \<and>
        autoencoder_score (FraudDetector_after (LoadRaised LoadError) d_forest)
          (features_to_array fv0) = 1 / 2 \<and>
        score r = 42 / 100 \<and> threshold r = 95 / 100 \<and> is_alert r = False \<and>
        score r =
           4 / 10 * isolation_forest_score (FraudDetector_after (LoadRaised LoadError) d_forest)
                      (features_to_array fv0)
         + 6 / 10 * autoencoder_score (FraudDetector_after (LoadRaised LoadError) d_forest)
                      (features_to_array fv0) \<and>
        0 \<le> score r \<and> score r \<le> 1 \<and> 0 \<le> threshold r \<and> threshold r \<le> 1 \<and>
        is_alert r = (score r > threshold r)"
proof -
  obtain r where r: "FraudDetector_score (LoadRaised LoadError) d_forest fv0 = Inr r"
    and m: "model_used r = ''ensemble''"
    and v: "score r = 42 / 100" "threshold r = 95 / 100" "is_alert r = False"
    using eval_d_forest by blast
  have s: "isolation_forest_score (FraudDetector_after (LoadRaised LoadError) d_forest)
          (features_to_array fv0) = 3 / 10"
     "autoencoder_score (FraudDetector_after (LoadRaised LoadError) d_forest)
          (features_to_array fv0) = 1 / 2"
    by (simp_all add: FraudDetector_after_def d_forest_def isolation_forest_score_def
        autoencoder_score_def)
  from ensemble_score_result [OF r m] r m v s show ?thesis by blast
qed

text \<open>
  Counterexample to C2 as stated: the detector has the unfitted scaler, so
  \<open>scaler.transform\<close> raises \<open>NotFittedError\<close> while the vector is scored; the
  autoencoder scorer catches it, and \<open>score\<close> returns an ensemble result with score 0.7,
  not the fallback result.
\<close>

theorem sub_scorer_exception_counterexample:
  "scaler_transform Unfitted (features_to_array fv0) = Inl NotFittedError \<and>
   autoencoder_score_try A0 Unfitted (features_to_array fv0) = Inl NotFittedError \<and>
   map_sum id model_used (FraudDetector_score (LoadRaised LoadError) d_unfitted fv0) = Inr ''ensemble'' \<and>
   map_sum id score (FraudDetector_score (LoadRaised LoadError) d_unfitted fv0) = Inr (7 / 10)"
  by (simp add: score_defs d_unfitted_def Let_def)

lemma score_try_returns:
  assumes "0 \<le> self_threshold d" and "self_threshold d \<le> 1"
    and "model_loaded d \<or> (\<forall>x. L \<noteq> LoadRaised x)"
  shows "\<exists>r. score_try L d features = Inr r \<and> FraudDetector_score L d features = Inr r"
proof (cases "score_try L d features")
  case (Inl e)
  then have "\<not> model_loaded d \<and> L = LoadRaised e"
    using score_try_raises_iff [OF assms(1,2)] by blast
  with assms(3) show ?thesis by blast
next
  case (Inr r)
  then show ?thesis by (simp add: FraudDetector_score_def)
qed

lemma forest_exception_sub_score:
  assumes "isolation_forest s = Some f" and "f a = Inl e"
  shows "isolation_forest_score s a = 1 / 2"
  using assms by (simp add: isolation_forest_score_def)

lemma autoencoder_exception_sub_score:
  assumes "autoencoder s = Some A" and "scaler s = Some S"
    and "autoencoder_score_try A S a = Inl e"
  shows "autoencoder_score s a = 1 / 2"
  using assms by (simp add: autoencoder_score_def)

text \<open>
  Claim C2, as the code has it. With \<open>self.threshold\<close> in \<open>[0, 1]\<close> (it is 0.95),
  \<open>score\<close> always returns a result, and whenever its \<open>try\<close> block raises, the result
  is the default one: score 0.5, no alert, model \<open>fallback\<close>, confidence 0. An exception
  inside a sub-scorer does not reach the handler: when \<open>load_models\<close> has not raised and
  \<open>score_samples\<close> of the forest raises, the forest sub-score is 0.5 and the result is
  an \<open>ensemble\<close> result with score \<open>0.4 * 0.5 + 0.6 * ae\<close>; when the scaler, the
  autoencoder or the loss raises, the autoencoder sub-score is 0.5 and the result is an
  \<open>ensemble\<close> result with score \<open>0.4 * if + 0.6 * 0.5\<close>.
\<close>

theorem fallback_on_exception:
  assumes "0 \<le> self_threshold d" and "self_threshold d \<le> 1"
  shows "(\<exists>r. FraudDetector_score L d features = Inr r) \<and>
         (\<forall>e. score_try L d features = Inl e \<longrightarrow>
              FraudDetector_score L d features =
                Inr \<lparr>score = 1 / 2, threshold = self_threshold d, is_alert = False,
                     model_used = ''fallback'',
                     explanation_of = ErrorExplanation ''Model scoring failed'',
                     confidence = 0\<rparr>) \<and>
         (\<forall>f e. (model_loaded d \<or> (\<forall>x. L \<noteq> LoadRaised x)) \<and>
                isolation_forest (FraudDetector_after L d) = Some f \<and>
                f (features_to_array features) = Inl e \<longrightarrow>
                isolation_forest_score (FraudDetector_after L d) (features_to_array features) = 1 / 2 \<and>
                (\<exists>r. FraudDetector_score L d features = Inr r \<and> model_used r = ''ensemble'' \<and>
                     score r = 4 / 10 * (1 / 2)
                       + 6 / 10 * autoencoder_score (FraudDetector_after L d)
                                    (features_to_array features))) \<and>
         (\<forall>A S e. (model_loaded d \<or> (\<forall>x. L \<noteq> LoadRaised x)) \<and>
                autoencoder (FraudDetector_after L d) = Some A \<and>
                scaler (FraudDetector_after L d) = Some S \<and>
                autoencoder_score_try A S (features_to_array features) = Inl e \<longrightarrow>
                autoencoder_score (FraudDetector_after L d) (features_to_array features) = 1 / 2 \<and>
                (\<exists>r. FraudDetector_score L d features = Inr r \<and> model_used r = ''ensemble'' \<and>
                     score r = 4 / 10 * isolation_forest_score (FraudDetector_after L d)
                                    (features_to_array features)
                       + 6 / 10 * (1 / 2)))"
proof (intro conjI allI impI)
  show "\<exists>r. FraudDetector_score L d features = Inr r"
    using assms
    by (cases "score_try L d features")
       (simp_all add: FraudDetector_score_def ScoreResult_new_def)
next
  fix e
  assume "score_try L d features = Inl e"
  then show "FraudDetector_score L d features =
      Inr \<lparr>score = 1 / 2, threshold = self_threshold d, is_alert = False,
           model_used = ''fallback'',
           explanation_of = ErrorExplanation ''Model scoring failed'', confidence = 0\<rparr>"
    using assms by (simp add: FraudDetector_score_def ScoreResult_new_def)
next
  fix f e
  assume h: "(model_loaded d \<or> (\<forall>x. L \<noteq> LoadRaised x)) \<and>
      isolation_forest (FraudDetector_after L d) = Some f \<and>
      f (features_to_array features) = Inl e"
  then show "isolation_forest_score (FraudDetector_after L d) (features_to_array features) = 1 / 2"
    using forest_exception_sub_score by blast
next
  fix f e
  assume h: "(model_loaded d \<or> (\<forall>x. L \<noteq> LoadRaised x)) \<and>
      isolation_forest (FraudDetector_after L d) = Some f \<and>
      f (features_to_array features) = Inl e"
  then have sub: "isolation_forest_score (FraudDetector_after L d) (features_to_array features) = 1 / 2"
    using forest_exception_sub_score by blast
  from h obtain r where r: "score_try L d features = Inr r"
    "FraudDetector_score L d features = Inr r"
    using score_try_returns [OF assms] by blast
  from score_try_ensemble [OF r(1)] sub r(2)
  show "\<exists>r. FraudDetector_score L d features = Inr r \<and> model_used r = ''ensemble'' \<and>
      score r = 4 / 10 * (1 / 2)
        + 6 / 10 * autoencoder_score (FraudDetector_after L d) (features_to_array features)"
    by auto
next
  fix A S e
  assume h: "(model_loaded d \<or> (\<forall>x. L \<noteq> LoadRaised x)) \<and>
      autoencoder (FraudDetector_after L d) = Some A \<and>
      scaler (FraudDetector_after L d) = Some S \<and>
      autoencoder_score_try A S (features_to_array features) = Inl e"
  then show "autoencoder_score (FraudDetector_after L d) (features_to_array features) = 1 / 2"
    using autoencoder_exception_sub_score by blast
next
  fix A S e
  assume h: "(model_loaded d \<or> (\<forall>x. L \<noteq> LoadRaised x)) \<and>
      autoencoder (FraudDetector_after L d) = Some A \<and>
      scaler (FraudDetector_after L d) = Some S \<and>
      autoencoder_score_try A S (features_to_array features) = Inl e"
  then have sub: "autoencoder_score (FraudDetector_after L d) (features_to_array features) = 1 / 2"
    using autoencoder_exception_sub_score by blast
  from h obtain r where r: "score_try L d features = Inr r"
    "FraudDetector_score L d features = Inr r"
    using score_try_returns [OF assms] by blast
  from score_try_ensemble [OF r(1)] sub r(2)
  show "\<exists>r. FraudDetector_score L d features = Inr r \<and> model_used r = ''ensemble'' \<and>
      score r = 4 / 10 * isolation_forest_score (FraudDetector_after L d)
                     (features_to_array features)
        + 6 / 10 * (1 / 2)"
    by auto
qed

lemma init_threshold:
  "0 \<le> self_threshold FraudDetector_init" "self_threshold FraudDetector_init \<le> 1"
  by (simp_all add: FraudDetector_init_def)

lemma init_load_raises:
  "score_try (LoadRaised LoadError) FraudDetector_init fv0 = Inl LoadError"
  by (simp add: score_try_def bind_err_def FraudDetector_init_def)

lemma raising_forest_facts:
  "0 \<le> self_threshold d_raising_forest \<and> self_threshold d_raising_forest \<le> 1 \<and>
   model_loaded d_raising_forest \<and>
   FraudDetector_after (LoadRaised LoadError) d_raising_forest = d_raising_forest \<and>
   isolation_forest d_raising_forest = Some (\<lambda>x. Inl NotFittedError) \<and>
   autoencoder_score d_raising_forest (features_to_array fv0) = 1 / 2"
  by (simp add: d_raising_forest_def FraudDetector_after_def autoencoder_score_def)

lemma unfitted_scaler_facts:
  "0 \<le> self_threshold d_unfitted \<and> self_threshold d_unfitted \<le> 1 \<and>
   model_loaded d_unfitted \<and>
   FraudDetector_after (LoadRaised LoadError) d_unfitted = d_unfitted \<and>
   autoencoder d_unfitted = Some A0 \<and> scaler d_unfitted = Some Unfitted \<and>
   autoencoder_score_try A0 Unfitted (features_to_array fv0) = Inl NotFittedError \<and>
   isolation_forest_score d_unfitted (features_to_array fv0) = 1"
  by (simp add: d_unfitted_def FraudDetector_after_def autoencoder_score_try_def bind_err_def
      isolation_forest_score_def)

text \<open>
  Witness for C2: a new detector whose \<open>load_models\<close> raises gets the fallback result;
  a loaded detector whose forest raises gets an ensemble result with score 0.5 (the
  autoencoder is absent); a loaded detector whose scaler raises gets an ensemble result
  with score 0.7.
\<close>

theorem fallback_on_exception_witness:
  "0 \<le> self_threshold FraudDetector_init \<and> self_threshold FraudDetector_init \<le> 1 \<and>
   score_try (LoadRaised LoadError) FraudDetector_init fv0 = Inl LoadError \<and>
   FraudDetector_score (LoadRaised LoadError) FraudDetector_init fv0 =
     Inr \<lparr>score = 1 / 2, threshold = 95 / 100, is_alert = False, model_used = ''fallback'',
          explanation_of = ErrorExplanation ''Model scoring failed'', confidence = 0\<rparr> \<and>
   isolation_forest_score d_raising_forest (features_to_array fv0) = 1 / 2 \<and>
   (\<exists>r. FraudDetector_score (LoadRaised LoadError) d_raising_forest fv0 = Inr r \<and>
        model_used r = ''ensemble'' \<and> score r = 1 / 2) \<and>
   autoencoder_score d_unfitted (features_to_array fv0) = 1 / 2 \<and>
   (\<exists>r. FraudDetector_score (LoadRaised LoadError) d_unfitted fv0 = Inr r \<and>
        model_used r = ''ensemble'' \<and> score r = 7 / 10)"
proof -
  have "FraudDetector_score (LoadRaised LoadError) FraudDetector_init fv0 =
     Inr \<lparr>score = 1 / 2, threshold = self_threshold FraudDetector_init, is_alert = False,
          model_used = ''fallback'',
          explanation_of = ErrorExplanation ''Model scoring failed'', confidence = 0\<rparr>"
    using fallback_on_exception [OF init_threshold, of "LoadRaised LoadError" fv0] init_load_raises
    by blast
  then have fb: "FraudDetector_score (LoadRaised LoadError) FraudDetector_init fv0 =
     Inr \<lparr>score = 1 / 2, threshold = 95 / 100, is_alert = False, model_used = ''fallback'',
          explanation_of = ErrorExplanation ''Model scoring failed'', confidence = 0\<rparr>"
    by (simp add: FraudDetector_init_def)
  have thr1: "0 \<le> self_threshold d_raising_forest" "self_threshold d_raising_forest \<le> 1"
    using raising_forest_facts by simp_all
  have after1: "FraudDetector_after (LoadRaised LoadError) d_raising_forest = d_raising_forest"
    using raising_forest_facts by simp
  have prem1: "(model_loaded d_raising_forest \<or> (\<forall>x. LoadRaised LoadError \<noteq> LoadRaised x)) \<and>
      isolation_forest (FraudDetector_after (LoadRaised LoadError) d_raising_forest) =
        Some (\<lambda>x. Inl NotFittedError) \<and>
      (Inl NotFittedError :: py_error + real) = Inl NotFittedError"
    using raising_forest_facts by simp
  note c1 = fallback_on_exception [OF thr1, of "LoadRaised LoadError" fv0, THEN conjunct2,
      THEN conjunct2, THEN conjunct1, rule_format, of "\<lambda>x. Inl NotFittedError" NotFittedError,
      OF prem1]
  from c1 have sub1: "isolation_forest_score d_raising_forest (features_to_array fv0) = 1 / 2"
    unfolding after1 by (rule conjunct1)
  from c1 obtain r1 where r1: "FraudDetector_score (LoadRaised LoadError) d_raising_forest fv0 = Inr r1"
    "model_used r1 = ''ensemble''"
    "score r1 = 4 / 10 * (1 / 2) + 6 / 10 * autoencoder_score d_raising_forest (features_to_array fv0)"
    unfolding after1 by blast
  have "autoencoder_score d_raising_forest (features_to_array fv0) = 1 / 2"
    using raising_forest_facts by simp
  with r1(3) have s1: "score r1 = 1 / 2" by simp
  have thr2: "0 \<le> self_threshold d_unfitted" "self_threshold d_unfitted \<le> 1"
    using unfitted_scaler_facts by simp_all
  have after2: "FraudDetector_after (LoadRaised LoadError) d_unfitted = d_unfitted"
    using unfitted_scaler_facts by simp
  have prem2: "(model_loaded d_unfitted \<or> (\<forall>x. LoadRaised LoadError \<noteq> LoadRaised x)) \<and>
      autoencoder (FraudDetector_after (LoadRaised LoadError) d_unfitted) = Some A0 \<and>
      scaler (FraudDetector_after (LoadRaised LoadError) d_unfitted) = Some Unfitted \<and>
      autoencoder_score_try A0 Unfitted (features_to_array fv0) = Inl NotFittedError"
    using unfitted_scaler_facts by simp
  note c2 = fallback_on_exception [OF thr2, of "LoadRaised LoadError" fv0, THEN conjunct2,
      THEN conjunct2, THEN conjunct2, rule_format, of A0 Unfitted NotFittedError, OF prem2]
  from c2 have sub2: "autoencoder_score d_unfitted (features_to_array fv0) = 1 / 2"
    unfolding after2 by (rule conjunct1)
  from c2 obtain r2 where r2: "FraudDetector_score (LoadRaised LoadError) d_unfitted fv0 = Inr r2"
    "model_used r2 = ''ensemble''"
    "score r2 = 4 / 10 * isolation_forest_score d_unfitted (features_to_array fv0) + 6 / 10 * (1 / 2)"
    unfolding after2 by blast
  have "isolation_forest_score d_unfitted (features_to_array fv0) = 1"
    using unfitted_scaler_facts by simp
  with r2(3) have s2: "score r2 = 7 / 10" by simp
  from fb sub1 r1(1,2) s1 sub2 r2(1,2) s2 init_threshold init_load_raises
  show ?thesis by blast
qed

text \<open>
  Counterexample to C3 as stated: on the fallback path the score is 0.5 and the
  confidence is 0, while \<open>min(1, 0.5 * 1.2)\<close> is 0.6.
\<close>

theorem fallback_confidence_counterexample:
  "FraudDetector_score (LoadRaised LoadError) FraudDetector_init fv0 =
     Inr \<lparr>score = 1 / 2, threshold = 95 / 100, is_alert = False, model_used = ''fallback'',
          explanation_of = ErrorExplanation ''Model scoring failed'', confidence = 0\<rparr> \<and>
   map_sum id confidence (FraudDetector_score (LoadRaised LoadError) FraudDetector_init fv0) = Inr 0 \<and>
   min 1 (1 / 2 * (12 / 10)) = (6 / 10 :: real)"
  by (simp add: score_defs FraudDetector_init_def)

text \<open>
  Claim C3, as the code has it. Every result of \<open>score\<close> is either an ensemble result
  with \<open>confidence = min(1, score * 1.2)\<close>, or the fallback result with score 0.5 and
  confidence 0.
\<close>

theorem confidence_by_path:
  assumes "FraudDetector_score L d features = Inr r"
  shows "(model_used r = ''ensemble'' \<and> confidence r = min 1 (score r * (12 / 10))) \<or>
         (model_used r = ''fallback'' \<and> score r = 1 / 2 \<and> confidence r = 0)"
  using score_cases [OF assms] score_try_ensemble [of L d features r]
  by (auto simp: min.commute)

lemma eval_init_fallback:
  "\<exists>r. FraudDetector_score (LoadRaised LoadError) FraudDetector_init fv0 = Inr r \<and>
        model_used r = ''fallback''"
  by (simp add: score_defs FraudDetector_init_def)

text \<open>
  Witness for C3: the ensemble result with score 0.42 has confidence 0.504; the fallback
  result has confidence 0.
\<close>

theorem confidence_by_path_witness:
  "(\<exists>r. FraudDetector_score (LoadRaised LoadError) d_forest fv0 = Inr r \<and>
        model_used r = ''ensemble'' \<and> score r = 42 / 100 \<and> confidence r = 504 / 1000) \<and>
   (\<exists>r. FraudDetector_score (LoadRaised LoadError) FraudDetector_init fv0 = Inr r \<and>
        model_used r = ''fallback'' \<and> score r = 1 / 2 \<and> confidence r = 0)"
proof -
  obtain r where r: "FraudDetector_score (LoadRaised LoadError) d_forest fv0 = Inr r"
    and m: "model_used r = ''ensemble''" and v: "score r = 42 / 100"
    using eval_d_forest by blast
  have "confidence r = 504 / 1000"
    using confidence_by_path [OF r] m v by auto
  with r m v have one: "\<exists>r. FraudDetector_score (LoadRaised LoadError) d_forest fv0 = Inr r \<and>
        model_used r = ''ensemble'' \<and> score r = 42 / 100 \<and> confidence r = 504 / 1000"
    by blast
  obtain r' where r': "FraudDetector_score (LoadRaised LoadError) FraudDetector_init fv0 = Inr r'"
    and m': "model_used r' = ''fallback''"
    using eval_init_fallback by blast
  have "score r' = 1 / 2 \<and> confidence r' = 0"
    using confidence_by_path [OF r'] m' by auto
  with r' m' one show ?thesis by blast
qed

section \<open>Storage\<close>

lemma insert_do_nothing_twice:
  "insert_do_nothing k row' now' (insert_do_nothing k row now rel) = insert_do_nothing k row now rel"
  by (simp add: insert_do_nothing_def)

text \<open>
  Every call of \<open>store_transaction\<close> raises: without a pool at once, with a pool at the
  \<open>features\<close> statement, after the \<open>transactions\<close> statement has been committed. The
  \<open>features\<close> and \<open>scores\<close> relations are never written.
\<close>

lemma store_transaction_raises:
  "store_transaction now db T fv r =
     (if pool_open db
      then (Inl PostgresSyntaxError,
            db\<lparr>transactions := insert_do_nothing (txn_id T) T now (transactions db)\<rparr>)
      else (Inl StorageError, db))"
  by (simp add: store_transaction_def execute_insert_def)

text \<open>
  Claim C8. A second call of \<open>store_transaction\<close> with the same \<open>txn_id\<close>, at any
  later time and with any transaction fields, feature vector and score result, leaves the
  database, and so each of the three relations, exactly as the first call left it.
\<close>

theorem store_transaction_idempotent:
  assumes "txn_id T' = txn_id T"
  shows "stored now' (stored now db T fv r) T' fv' r' = stored now db T fv r \<and>
         transactions (stored now' (stored now db T fv r) T' fv' r') =
           transactions (stored now db T fv r) \<and>
         features_rel (stored now' (stored now db T fv r) T' fv' r') =
           features_rel (stored now db T fv r) \<and>
         scores (stored now' (stored now db T fv r) T' fv' r') =
           scores (stored now db T fv r)"
proof -
  have "stored now' (stored now db T fv r) T' fv' r' = stored now db T fv r"
    unfolding stored_def store_transaction_def execute_insert_def assms
    by (simp add: insert_do_nothing_twice)
  then show ?thesis by simp
qed

lemma eval_store:
  "store_transaction 1700000000000000 db0 T0 fv0 r0 =
     (Inl PostgresSyntaxError,
      \<lparr>pool_open = True, transactions = [(''t-3'', T0, 1700000000000000)],
       features_rel = [], scores = []\<rparr>)"
  by (simp add: store_transaction_def execute_insert_def db0_def insert_do_nothing_def T0_def)

lemma eval_store_again:
  "store_transaction 1700000000000001
     \<lparr>pool_open = True, transactions = [(''t-3'', T0, 1700000000000000)],
      features_rel = [], scores = []\<rparr> T_device fv0 r0 =
     (Inl PostgresSyntaxError,
      \<lparr>pool_open = True, transactions = [(''t-3'', T0, 1700000000000000)],
       features_rel = [], scores = []\<rparr>)"
  by (simp add: store_transaction_def execute_insert_def insert_do_nothing_def T0_def T_device_def)

text \<open>
  Witness for C8: storing \<open>t-3\<close> into the empty database commits the transaction row
  and raises at the \<open>features\<close> statement; storing a transaction with the same id and
  another device one microsecond later raises again and changes nothing.
\<close>

theorem store_transaction_idempotent_witness:
  "txn_id T_device = txn_id T0 \<and>
   store_transaction 1700000000000000 db0 T0 fv0 r0 =
     (Inl PostgresSyntaxError,
      \<lparr>pool_open = True, transactions = [(''t-3'', T0, 1700000000000000)],
       features_rel = [], scores = []\<rparr>) \<and>
   store_transaction 1700000000000001
     \<lparr>pool_open = True, transactions = [(''t-3'', T0, 1700000000000000)],
      features_rel = [], scores = []\<rparr> T_device fv0 r0 =
     (Inl PostgresSyntaxError,
      \<lparr>pool_open = True, transactions = [(''t-3'', T0, 1700000000000000)],
       features_rel = [], scores = []\<rparr>) \<and>
   stored 1700000000000001 (stored 1700000000000000 db0 T0 fv0 r0) T_device fv0 r0 =
     stored 1700000000000000 db0 T0 fv0 r0"
proof -
  have k: "txn_id T_device = txn_id T0"
    by (simp add: T_device_def)
  from store_transaction_idempotent [OF k, of 1700000000000001 1700000000000000 db0 fv0 r0 fv0 r0]
    eval_store eval_store_again k
  show ?thesis by blast
qed

text \<open>
  Claim C9 at a failing input. For a merchant without transaction rows the aggregate
  query divides by \<open>COUNT(*) = 0\<close>: \<open>get_merchant_stats\<close> raises instead of returning
  the record of zeros, and the feature engineer's cached read raises with it.
\<close>

theorem get_merchant_stats_no_rows:
  "get_merchant_stats db0 ''MERCH_NEW'' = Inl DivisionByZeroError \<and>
   get_merchant_stats_cached Map.empty db0 ''MERCH_NEW'' = (Inl DivisionByZeroError, Map.empty)"
  by (simp add: get_merchant_stats_def get_merchant_stats_cached_def db0_def)

end
